theory Spec2Isabelle
  imports Complex_Main
begin

section \<open>Data model (backend/schema.sql)\<close>

text \<open>
  The candidate status column is text; its documented values are the eight below
  (\<^verbatim>\<open>sourced|contacted|interested|screened|interviewing|offered|hired|rejected\<close>),
  and these are the only values the handlers write.
\<close>

datatype status =
  Sourced | Contacted | Interested | Screened | Interviewing | Offered | Hired | Rejected

text \<open>
  Rows of the tables. Nullable columns are options. Timestamps are milliseconds since the
  epoch. Columns that no modelled handler reads or writes with anything but a constant
  (\<^verbatim>\<open>created_at\<close>, \<^verbatim>\<open>org_id\<close>, the profile columns
  \<^verbatim>\<open>current_title\<close>, \<^verbatim>\<open>company\<close>, \<^verbatim>\<open>location\<close>,
  \<^verbatim>\<open>linkedin\<close>, \<^verbatim>\<open>public_url\<close>, \<^verbatim>\<open>resume_url\<close>,
  \<^verbatim>\<open>thread_id\<close>, \<^verbatim>\<open>template_id\<close>, and the generated id of an
  engagement row) are left out.
\<close>

record parsed_jd =
  jd_keywords :: "string list option"
  jd_rest :: string

record role =
  r_id :: string
  r_title :: string
  r_parsed_json :: "parsed_jd option"
  r_status :: string
  r_min_pipeline :: "int option"

record candidate =
  c_id :: string
  c_role_id :: string
  c_name :: string
  c_summary :: string
  culture_score :: "int option"
  technical_score :: "int option"
  experience_score :: "int option"
  fit_score :: "int option"
  c_status :: status

datatype outreach_meta = EmptyMeta | Draft string string

record outreach_row =
  o_id :: string
  o_candidate_id :: string
  o_provider :: string
  o_step :: int
  o_last_sent_at :: "nat option"
  o_next_send_at :: "nat option"
  o_meta :: outreach_meta

record webhook_payload =
  wp_candidate_id :: "string option"
  wp_recipient_id :: "string option"
  wp_event :: "string option"
  wp_type :: "string option"

datatype engagement_payload =
  WebhookBody webhook_payload
| MeetingPayload string
| SentPayload string bool
| EmptyPayload

record engagement =
  e_candidate_id :: "string option"
  e_event :: "string option"
  e_payload :: engagement_payload

record config_row =
  cfg_key :: string
  cfg_message :: string
  cfg_count :: int

text \<open>
  The database. The in-memory \<^verbatim>\<open>store\<close> object of server.js has the same
  arrays (without \<^verbatim>\<open>config\<close>) and is modelled by the same record.
\<close>

record store =
  roles :: "role list"
  candidates :: "candidate list"
  outreach :: "outreach_row list"
  engagements :: "engagement list"
  config :: "config_row list"

section \<open>Requests, responses and outbound calls\<close>

text \<open>
  A request carries its HTTP method and its JSON body; \<open>None\<close> is a body that
  \<^verbatim>\<open>req.json()\<close> fails to parse. A field that is absent from the JSON
  object is \<open>None\<close>.
\<close>

record 'a request =
  req_method :: string
  req_body :: "'a option"

record lead =
  l_name :: string
  l_title :: string
  l_company :: string
  l_location :: string
  l_public_url :: string

record screen_result =
  one_liner :: string
  sr_culture_score :: int
  sr_technical_score :: int
  sr_experience_score :: int
  sr_fit_score :: int
  top_reasons :: "string list"
  interview_focus :: "string list"

record outreach_response =
  subject :: string
  body :: string

datatype reply =
  ErrorMessage string
| Success
| MeetingUrl string
| Leads "lead list"
| ScreenReply screen_result
| OutreachReply outreach_response

text \<open>An outbound HTTP call (\<^verbatim>\<open>fetch\<close>) to an external service.\<close>

datatype net_call =
  GoogleCSE string int
| OpenAIScreen "parsed_jd option" string
| OpenAIOutreach role candidate string

text \<open>
  What one invocation of a handler does: the response (status code and body), the
  database after it, and the outbound calls it made, in order.
\<close>

record outcome =
  resp :: "nat \<times> reply"
  db :: store
  calls :: "net_call list"

definition respond :: "nat \<Rightarrow> reply \<Rightarrow> store \<Rightarrow> outcome" where
  "respond code r s = \<lparr>resp = (code, r), db = s, calls = []\<rparr>"

section \<open>JavaScript and storage primitives\<close>

text \<open>A string-valued JSON field is truthy when it is present and not empty.\<close>

definition truthy :: "string option \<Rightarrow> bool" where
  "truthy v = (case v of None \<Rightarrow> False | Some x \<Rightarrow> x \<noteq> [])"

text \<open>\<^verbatim>\<open>a || b\<close>\<close>

definition js_or :: "string option \<Rightarrow> string option \<Rightarrow> string option" where
  "js_or a b = (if truthy a then a else b)"

text \<open>\<^verbatim>\<open>s.split(d)\<close> for a one-character separator.\<close>

fun split_on :: "char \<Rightarrow> string \<Rightarrow> string list" where
  "split_on d [] = [Nil]"
| "split_on d (c # cs) =
     (if c = d then [] # split_on d cs
      else (case split_on d cs of [] \<Rightarrow> [c # Nil] | w # ws \<Rightarrow> (c # w) # ws))"

text \<open>
  \<^verbatim>\<open>.maybeSingle()\<close> of supabase-js: the row when the query has exactly one,
  \<^verbatim>\<open>data: null\<close> when it has none, and an error with \<^verbatim>\<open>data: null\<close>
  when it has several.
\<close>

definition maybeSingle :: "'a list \<Rightarrow> 'a option" where
  "maybeSingle rows = (case rows of [x] \<Rightarrow> Some x | _ \<Rightarrow> None)"

text \<open>\<^verbatim>\<open>from('candidates').select('*').eq('id', i).maybeSingle()\<close>\<close>

definition select_candidate :: "string \<Rightarrow> store \<Rightarrow> candidate option" where
  "select_candidate i s = maybeSingle (filter (\<lambda>c. c_id c = i) (candidates s))"

text \<open>\<^verbatim>\<open>from('candidates').update({ status: t }).eq('id', i)\<close>\<close>

definition update_candidate_status :: "string \<Rightarrow> status \<Rightarrow> store \<Rightarrow> store" where
  "update_candidate_status i t s =
     s\<lparr>candidates := map (\<lambda>c. if c_id c = i then c\<lparr>c_status := t\<rparr> else c) (candidates s)\<rparr>"

text \<open>
  \<^verbatim>\<open>from('engagements').insert(row)\<close>. The column \<^verbatim>\<open>candidate_id\<close>
  references \<^verbatim>\<open>candidates(id)\<close>: a row naming no stored candidate is refused by
  the database, and the handlers do not look at the error.
\<close>

definition insert_engagement :: "engagement \<Rightarrow> store \<Rightarrow> store" where
  "insert_engagement e s =
     (case e_candidate_id e of
        None \<Rightarrow> s\<lparr>engagements := engagements s @ [e]\<rparr>
      | Some i \<Rightarrow>
          if i \<in> set (map c_id (candidates s))
          then s\<lparr>engagements := engagements s @ [e]\<rparr> else s)"

text \<open>
  A column of type \<^verbatim>\<open>int\<close> holds a 32-bit signed integer: the database refuses a
  statement that would store a value outside this range, and the handlers do not look at
  the error. The columns concerned are \<^verbatim>\<open>outreach.step\<close> and the four score
  columns of \<^verbatim>\<open>candidates\<close>.
\<close>

definition pg_int :: "int \<Rightarrow> bool" where
  "pg_int n = (- 2147483648 \<le> n \<and> n \<le> 2147483647)"

definition pg_int_opt :: "int option \<Rightarrow> bool" where
  "pg_int_opt v = (case v of None \<Rightarrow> True | Some n \<Rightarrow> pg_int n)"

text \<open>
  \<^verbatim>\<open>from('outreach').insert(row)\<close>: the primary key \<^verbatim>\<open>id\<close> (generated
  by the database, given here as part of the row) must be new,
  \<^verbatim>\<open>candidate_id\<close> must reference a stored candidate and \<^verbatim>\<open>step\<close> must
  fit its column.
\<close>

definition insert_outreach :: "outreach_row \<Rightarrow> store \<Rightarrow> store" where
  "insert_outreach r s =
     (if o_id r \<notin> set (map o_id (outreach s)) \<and> o_candidate_id r \<in> set (map c_id (candidates s))
         \<and> pg_int (o_step r)
      then s\<lparr>outreach := outreach s @ [r]\<rparr> else s)"

text \<open>
  \<^verbatim>\<open>from('outreach').update({ step: n, last_sent_at: t }).eq('id', i)\<close>: one
  statement, refused as a whole when \<open>n\<close> does not fit the column.
\<close>

definition update_outreach_step :: "string \<Rightarrow> int \<Rightarrow> nat \<Rightarrow> store \<Rightarrow> store" where
  "update_outreach_step i n t s =
     (if pg_int n
      then s\<lparr>outreach :=
              map (\<lambda>r. if o_id r = i then r\<lparr>o_step := n, o_last_sent_at := Some t\<rparr> else r)
                (outreach s)\<rparr>
      else s)"

text \<open>
  \<^verbatim>\<open>from('candidates').insert(row)\<close>: the primary key must be new,
  \<^verbatim>\<open>role_id\<close> must reference a stored role and the four scores must fit their
  columns.
\<close>

definition insert_candidate :: "candidate \<Rightarrow> store \<Rightarrow> store" where
  "insert_candidate c s =
     (if c_id c \<notin> set (map c_id (candidates s)) \<and> c_role_id c \<in> set (map r_id (roles s))
         \<and> pg_int_opt (culture_score c) \<and> pg_int_opt (technical_score c)
         \<and> pg_int_opt (experience_score c) \<and> pg_int_opt (fit_score c)
      then s\<lparr>candidates := candidates s @ [c]\<rparr> else s)"

section \<open>Environment\<close>

text \<open>The environment variables the edge functions read; \<open>None\<close> is an unset variable.\<close>

record env =
  FEATURE_FLAGS :: "string option"
  OPENAI_API_KEY :: "string option"
  GOOGLE_CSE_ID :: "string option"
  GOOGLE_CSE_KEY :: "string option"
  APOLLO_API_KEY :: "string option"
  SENDGRID_API_KEY :: "string option"

text \<open>\<^verbatim>\<open>(Deno.env.get('FEATURE_FLAGS') || '').split(',')\<close>\<close>

definition featureFlags :: "env \<Rightarrow> string list" where
  "featureFlags ev =
     split_on (CHR '','') (case js_or (FEATURE_FLAGS ev) (Some []) of None \<Rightarrow> [] | Some f \<Rightarrow> f)"

section \<open>ingest\_webhook.ts\<close>

text \<open>
  The event to status mapping: \<^verbatim>\<open>newStatus\<close> starts as null and three
  consecutive \<^verbatim>\<open>if\<close> statements assign it.
\<close>

definition newStatus_of :: "string \<Rightarrow> status option" where
  "newStatus_of event =
     (let n0 = None;
          n1 = (if event = ''opened'' then Some Contacted else n0);
          n2 = (if event = ''replied'' then Some Interested else n1);
          n3 = (if event = ''bounced'' then Some Rejected else n2)
      in n3)"

definition ingest_webhook :: "webhook_payload request \<Rightarrow> store \<Rightarrow> outcome" where
  "ingest_webhook req s =
     (if req_method req \<noteq> ''POST'' then respond 405 (ErrorMessage ''Method not allowed'') s
      else case req_body req of
        None \<Rightarrow> respond 400 (ErrorMessage ''Invalid JSON'') s
      | Some payload \<Rightarrow>
          let candidateId = js_or (wp_candidate_id payload) (wp_recipient_id payload);
              event = js_or (wp_event payload) (wp_type payload)
          in if \<not> truthy candidateId \<or> \<not> truthy event
             then respond 400 (ErrorMessage ''Missing candidate_id or event'') s
             else (case (candidateId, event) of
                 (Some i, Some ev) \<Rightarrow>
                   let s1 = insert_engagement
                              \<lparr>e_candidate_id = Some i, e_event = Some ev,
                               e_payload = WebhookBody payload\<rparr> s;
                       s2 = (case newStatus_of ev of
                               None \<Rightarrow> s1
                             | Some t \<Rightarrow> update_candidate_status i t s1)
                   in respond 200 Success s2
               | _ \<Rightarrow> respond 400 (ErrorMessage ''Missing candidate_id or event'') s))"

section \<open>schedule\_meeting.ts\<close>

record schedule_request =
  sm_candidate_id :: "string option"

definition schedule_meeting :: "schedule_request request \<Rightarrow> store \<Rightarrow> outcome" where
  "schedule_meeting req s =
     (if req_method req \<noteq> ''POST'' then respond 405 (ErrorMessage ''Method not allowed'') s
      else case req_body req of
        None \<Rightarrow> respond 400 (ErrorMessage ''Invalid JSON'') s
      | Some b \<Rightarrow>
          (case sm_candidate_id b of
             None \<Rightarrow> respond 400 (ErrorMessage ''candidate_id is required'') s
           | Some candidateId \<Rightarrow>
               if candidateId = [] then respond 400 (ErrorMessage ''candidate_id is required'') s
               else
                 let meetingUrl = ''https://calendly.com/demo/'' @ candidateId;
                     s1 = update_candidate_status candidateId Interviewing s;
                     s2 = insert_engagement
                            \<lparr>e_candidate_id = Some candidateId, e_event = Some ''scheduled'',
                             e_payload = MeetingPayload meetingUrl\<rparr> s1
                 in respond 200 (MeetingUrl meetingUrl) s2))"

section \<open>send\_sequence.ts\<close>

record send_sequence_request =
  ss_candidate_id :: "string option"

text \<open>
  \<open>now\<close> is the clock read by \<^verbatim>\<open>new Date()\<close>; \<open>new_id\<close> is the
  identifier the database generates if an outreach row is inserted.
\<close>

definition send_sequence ::
  "env \<Rightarrow> nat \<Rightarrow> string \<Rightarrow> send_sequence_request request \<Rightarrow> store \<Rightarrow> outcome" where
  "send_sequence ev now new_id req s =
     (if req_method req \<noteq> ''POST'' then respond 405 (ErrorMessage ''Method not allowed'') s
      else case req_body req of
        None \<Rightarrow> respond 400 (ErrorMessage ''Invalid JSON'') s
      | Some payload \<Rightarrow>
          (case ss_candidate_id payload of
             None \<Rightarrow> respond 400 (ErrorMessage ''candidate_id is required'') s
           | Some cid \<Rightarrow>
               if cid = [] then respond 400 (ErrorMessage ''candidate_id is required'') s
               else (case select_candidate cid s of
                   None \<Rightarrow> respond 404 (ErrorMessage ''Candidate not found'') s
                 | Some candidate \<Rightarrow>
                     let provider = (if truthy (APOLLO_API_KEY ev) then ''apollo''
                                     else if truthy (SENDGRID_API_KEY ev) then ''sendgrid''
                                     else ''none'');
                         mockMode = (''mock_outreach'' \<in> set (featureFlags ev) \<or> provider = ''none'');
                         existing = maybeSingle (filter (\<lambda>r. o_candidate_id r = cid) (outreach s));
                         s1 = (case existing of
                                 None \<Rightarrow>
                                   insert_outreach
                                     \<lparr>o_id = new_id, o_candidate_id = cid, o_provider = provider,
                                      o_step = 1, o_last_sent_at = Some now,
                                      o_next_send_at = None, o_meta = EmptyMeta\<rparr> s
                               | Some ex \<Rightarrow>
                                   update_outreach_step (o_id ex) (o_step ex + 1) now s);
                         s2 = update_candidate_status cid Contacted s1;
                         s3 = insert_engagement
                                \<lparr>e_candidate_id = Some cid, e_event = Some ''sent'',
                                 e_payload = SentPayload provider mockMode\<rparr> s2
                     in respond 200 Success s3)))"

section \<open>pipeline\_daemon.ts\<close>

text \<open>A number as a template string prints it: its decimal digits.\<close>

fun dec :: "nat \<Rightarrow> string" where
  "dec n = (if n < 10 then [char_of (48 + n)] else dec (n div 10) @ [char_of (48 + n mod 10)])"

declare dec.simps [simp del]

text \<open>\<^verbatim>\<open>n || 0\<close> on a nullable number.\<close>

definition or0 :: "int option \<Rightarrow> int" where
  "or0 v = (case v of None \<Rightarrow> 0 | Some n \<Rightarrow> if n = 0 then 0 else n)"

text \<open>\<^verbatim>\<open>from('config').insert(row)\<close>: \<^verbatim>\<open>key\<close> is the primary key.\<close>

definition insert_config :: "config_row \<Rightarrow> store \<Rightarrow> store" where
  "insert_config r s =
     (if cfg_key r \<notin> set (map cfg_key (config s)) then s\<lparr>config := config s @ [r]\<rparr> else s)"

text \<open>
  The two storage reads whose failure the daemon branches on: the selection of the open
  roles (\<^verbatim>\<open>roles || []\<close>) and the count of a role's candidates
  (\<^verbatim>\<open>if (error) continue\<close>).
\<close>

record faults =
  roles_select_fails :: bool
  count_fails :: "string \<Rightarrow> bool"

text \<open>
  The body of the loop over the roles. \<open>clock k\<close> is what \<^verbatim>\<open>Date.now()\<close>
  returns in iteration \<open>k\<close>.
\<close>

fun daemon_roles :: "faults \<Rightarrow> (nat \<Rightarrow> nat) \<Rightarrow> nat \<Rightarrow> role list \<Rightarrow> store \<Rightarrow> store" where
  "daemon_roles f clock k [] s = s"
| "daemon_roles f clock k (role # rest) s =
     (if count_fails f (r_id role) then daemon_roles f clock (Suc k) rest s
      else
        let count = int (length (filter (\<lambda>c. c_role_id c = r_id role) (candidates s)))
        in if or0 (Some count) < or0 (r_min_pipeline role)
           then
             let logKey = ''pipeline_'' @ r_id role @ ''_'' @ dec (clock k)
             in daemon_roles f clock (Suc k) rest
                  (insert_config
                     \<lparr>cfg_key = logKey,
                      cfg_message = ''Pipeline underfilled for role '' @ r_title role,
                      cfg_count = count\<rparr> s)
           else daemon_roles f clock (Suc k) rest s)"

definition pipeline_daemon :: "faults \<Rightarrow> (nat \<Rightarrow> nat) \<Rightarrow> store \<Rightarrow> outcome" where
  "pipeline_daemon f clock s =
     (let open_roles = (if roles_select_fails f then []
                        else filter (\<lambda>r. r_status r = ''open'') (roles s))
      in respond 200 Success (daemon_roles f clock 0 open_roles s))"

section \<open>External collaborators\<close>

text \<open>
  What the external services answer is not decided by this code: it is a parameter.
  Each function gives, for a call, either the message of the error the caller throws
  (\<open>Inl\<close>: a non-2xx status or a reply that does not parse) or the value the caller
  returns. For the screening and drafting calls that value is the JSON object of the reply,
  cast without validation (\<^verbatim>\<open>JSON.parse(content) as ScreenResult\<close>); for the
  search it is the leads that \<^verbatim>\<open>searchGoogle\<close> builds from the reply's items.
\<close>

record network =
  google_cse :: "string \<Rightarrow> int \<Rightarrow> string + lead list"
  openai_screen :: "parsed_jd option \<Rightarrow> string \<Rightarrow> string + screen_result"
  openai_outreach :: "role \<Rightarrow> candidate \<Rightarrow> string \<Rightarrow> string + outreach_response"

section \<open>screen\_resume.ts\<close>

record screen_request =
  sq_role_id :: "string option"
  sq_resume_text :: "string option"

text \<open>
  \<open>rnd k\<close> is the value of the \<open>k\<close>-th call of \<^verbatim>\<open>Math.random()\<close> in an
  invocation: a number at least 0 and below 1. The products are taken exactly; in double
  arithmetic \<^verbatim>\<open>r * 5\<close> and \<^verbatim>\<open>r * 20\<close> stay below 5 and 20 for every double
  \<open>r\<close> below 1, so the integers produced range over the same values.
\<close>

definition rand :: "rat \<Rightarrow> int" where
  "rand r = \<lfloor>r * 5\<rfloor> + 1"

definition mockScreen :: "(nat \<Rightarrow> rat) \<Rightarrow> screen_result" where
  "mockScreen rnd =
     (let culture = rand (rnd 0);
          technical = rand (rnd 1);
          experience = rand (rnd 2);
          fit = min 100 (culture * 20 + technical * 15 + experience * 15 + \<lfloor>rnd 3 * 20\<rfloor>)
      in \<lparr>one_liner = ''Seasoned engineer with relevant experience.'',
          sr_culture_score = culture,
          sr_technical_score = technical,
          sr_experience_score = experience,
          sr_fit_score = fit,
          top_reasons = [''Strong technical background'', ''Relevant experience'',
                         ''Good cultural fit''],
          interview_focus = [''System design'', ''Team collaboration'', ''Technical depth'']\<rparr>)"

definition select_role :: "string \<Rightarrow> store \<Rightarrow> role option" where
  "select_role i s = maybeSingle (filter (\<lambda>r. r_id r = i) (roles s))"

definition callOpenAI_screen ::
  "network \<Rightarrow> string \<Rightarrow> string \<Rightarrow> store \<Rightarrow> (string + screen_result) \<times> net_call list" where
  "callOpenAI_screen net roleId resume s =
     (let jd = (case select_role roleId s of None \<Rightarrow> None | Some r \<Rightarrow> r_parsed_json r)
      in (openai_screen net jd resume, [OpenAIScreen jd resume]))"

definition screen_resume ::
  "env \<Rightarrow> network \<Rightarrow> (nat \<Rightarrow> rat) \<Rightarrow> string \<Rightarrow> screen_request request \<Rightarrow> store \<Rightarrow> outcome" where
  "screen_resume ev net rnd new_id req s =
     (if req_method req \<noteq> ''POST'' then respond 405 (ErrorMessage ''Method not allowed'') s
      else case req_body req of
        None \<Rightarrow> respond 400 (ErrorMessage ''Invalid JSON'') s
      | Some payload \<Rightarrow>
          (case (sq_role_id payload, sq_resume_text payload) of
             (Some role_id, Some resume_text) \<Rightarrow>
               if role_id = [] \<or> resume_text = []
               then respond 400 (ErrorMessage ''role_id and resume_text are required'') s
               else
                 let (result, cs) =
                       (if ''mock_screen_resume'' \<in> set (featureFlags ev) \<or> \<not> truthy (OPENAI_API_KEY ev)
                        then (Inr (mockScreen rnd), [])
                        else callOpenAI_screen net role_id resume_text s)
                 in (case result of
                       Inl msg \<Rightarrow> \<lparr>resp = (500, ErrorMessage msg), db = s, calls = cs\<rparr>
                     | Inr r \<Rightarrow>
                         \<lparr>resp = (200, ScreenReply r),
                          db = insert_candidate
                                 \<lparr>c_id = new_id, c_role_id = role_id, c_name = ''Unknown'',
                                  c_summary = one_liner r,
                                  culture_score = Some (sr_culture_score r),
                                  technical_score = Some (sr_technical_score r),
                                  experience_score = Some (sr_experience_score r),
                                  fit_score = Some (sr_fit_score r),
                                  c_status = Screened\<rparr> s,
                          calls = cs\<rparr>)
           | _ \<Rightarrow> respond 400 (ErrorMessage ''role_id and resume_text are required'') s))"

section \<open>xray\_search.ts\<close>

record xray_request =
  xr_role_id :: "string option"
  xr_query_overrides :: "string list option"
  xr_count :: "int option"

definition mockLeads :: "lead list" where
  "mockLeads =
     [\<lparr>l_name = ''Grace Hopper'', l_title = ''Senior Backend Engineer'', l_company = ''DemoCo'',
       l_location = ''Austin, TX'', l_public_url = ''https://example.com/grace''\<rparr>,
      \<lparr>l_name = ''Linus Torvalds'', l_title = ''Kernel Developer'', l_company = ''Open Source'',
       l_location = ''Portland, OR'', l_public_url = ''https://example.com/linus''\<rparr>,
      \<lparr>l_name = ''Ada Lovelace'', l_title = ''Software Architect'', l_company = ''MathWorks'',
       l_location = ''London, UK'', l_public_url = ''https://example.com/ada''\<rparr>]"

text \<open>\<^verbatim>\<open>xs.slice(0, n)\<close>: a negative \<open>n\<close> counts from the end.\<close>

definition slice0 :: "'a list \<Rightarrow> int \<Rightarrow> 'a list" where
  "slice0 xs n = (if 0 \<le> n then take (nat n) xs else take (nat (int (length xs) + n)) xs)"

text \<open>\<^verbatim>\<open>xs.join(sep)\<close>\<close>

fun join :: "string \<Rightarrow> string list \<Rightarrow> string" where
  "join sep [] = []"
| "join sep [x] = x"
| "join sep (x # y # ys) = x @ sep @ join sep (y # ys)"

definition searchGoogle :: "network \<Rightarrow> string \<Rightarrow> int \<Rightarrow> (string + lead list) \<times> net_call list" where
  "searchGoogle net query limit =
     (google_cse net query (min limit 10), [GoogleCSE query (min limit 10)])"

text \<open>
  The two values the handler computes from the request before it chooses between mock and
  live mode: \<^verbatim>\<open>count = payload.count || 5\<close>, and \<^verbatim>\<open>keywords\<close>, the
  overrides of the request or else the keywords of the role's parsed description or else
  none.
\<close>

definition xray_count :: "xray_request \<Rightarrow> int" where
  "xray_count payload =
     (case xr_count payload of None \<Rightarrow> 5 | Some n \<Rightarrow> if n = 0 then 5 else n)"

definition xray_keywords :: "xray_request \<Rightarrow> string \<Rightarrow> store \<Rightarrow> string list" where
  "xray_keywords payload role_id s =
     (let parsed_keywords = (case select_role role_id s of
                               None \<Rightarrow> None
                             | Some r \<Rightarrow>
                                 (case r_parsed_json r of
                                    None \<Rightarrow> None | Some jd \<Rightarrow> jd_keywords jd))
      in case xr_query_overrides payload of
           Some q \<Rightarrow> q
         | None \<Rightarrow> (case parsed_keywords of Some k \<Rightarrow> k | None \<Rightarrow> []))"

definition xray_search :: "env \<Rightarrow> network \<Rightarrow> xray_request request \<Rightarrow> store \<Rightarrow> outcome" where
  "xray_search ev net req s =
     (if req_method req \<noteq> ''POST'' then respond 405 (ErrorMessage ''Method not allowed'') s
      else case req_body req of
        None \<Rightarrow> respond 400 (ErrorMessage ''Invalid JSON'') s
      | Some payload \<Rightarrow>
          (case xr_role_id payload of
             None \<Rightarrow> respond 400 (ErrorMessage ''role_id is required'') s
           | Some role_id \<Rightarrow>
               if role_id = [] then respond 400 (ErrorMessage ''role_id is required'') s
               else
                 let count = xray_count payload;
                     keywords = xray_keywords payload role_id s
                 in if ''mock_xray_search'' \<in> set (featureFlags ev)
                       \<or> \<not> truthy (GOOGLE_CSE_KEY ev) \<or> \<not> truthy (GOOGLE_CSE_ID ev)
                    then respond 200 (Leads (slice0 mockLeads count)) s
                    else
                      let query = join '' OR '' keywords;
                          (result, cs) = searchGoogle net query count
                      in (case result of
                            Inr leads \<Rightarrow> \<lparr>resp = (200, Leads leads), db = s, calls = cs\<rparr>
                          | Inl msg \<Rightarrow> \<lparr>resp = (500, ErrorMessage msg), db = s, calls = cs\<rparr>)))"

section \<open>generate\_outreach.ts\<close>

record outreach_request =
  oq_role_id :: "string option"
  oq_candidate_id :: "string option"
  oq_tone :: "string option"

text \<open>The right single quotation mark of the canned body, in UTF-8, and the line feed.\<close>

definition rsquo :: string where
  "rsquo = [CHR 0xE2, CHR 0x80, CHR 0x99]"

definition lf :: string where
  "lf = [CHR 0x0A]"

definition mockOutreach :: "string \<Rightarrow> outreach_response" where
  "mockOutreach candidateName =
     \<lparr>subject = ''Opportunity to chat about a new role'',
      body = ''Hello '' @ candidateName @ '','' @ lf @ lf
        @ ''I hope you'' @ rsquo @ ''re doing well! I'' @ rsquo
        @ ''m reaching out about a senior engineering position that I think aligns with your background. If you''
        @ rsquo
        @ ''re open to a quick chat, please grab a slot on my calendar here: {{calendly_link}}.''
        @ lf @ lf @ ''Best regards,'' @ lf @ ''HireLoop Recruiter''\<rparr>"

definition callOpenAI_outreach ::
  "network \<Rightarrow> role \<Rightarrow> candidate \<Rightarrow> string \<Rightarrow> (string + outreach_response) \<times> net_call list" where
  "callOpenAI_outreach net r c tone =
     (openai_outreach net r c tone, [OpenAIOutreach r c tone])"

definition generate_outreach ::
  "env \<Rightarrow> network \<Rightarrow> string \<Rightarrow> outreach_request request \<Rightarrow> store \<Rightarrow> outcome" where
  "generate_outreach ev net new_id req s =
     (if req_method req \<noteq> ''POST'' then respond 405 (ErrorMessage ''Method not allowed'') s
      else case req_body req of
        None \<Rightarrow> respond 400 (ErrorMessage ''Invalid JSON'') s
      | Some payload \<Rightarrow>
          (case (oq_role_id payload, oq_candidate_id payload) of
             (Some role_id, Some candidate_id) \<Rightarrow>
               if role_id = [] \<or> candidate_id = []
               then respond 400 (ErrorMessage ''role_id and candidate_id are required'') s
               else (case (select_role role_id s, select_candidate candidate_id s) of
                   (Some r, Some c) \<Rightarrow>
                     let (result, cs) =
                           (if ''mock_outreach'' \<in> set (featureFlags ev) \<or> \<not> truthy (OPENAI_API_KEY ev)
                            then (Inr (mockOutreach (if c_name c = [] then ''Candidate'' else c_name c)), [])
                            else callOpenAI_outreach net r c
                                   (if truthy (oq_tone payload)
                                    then (case oq_tone payload of Some t \<Rightarrow> t | None \<Rightarrow> ''professional'')
                                    else ''professional''))
                     in (case result of
                           Inl msg \<Rightarrow> \<lparr>resp = (500, ErrorMessage msg), db = s, calls = cs\<rparr>
                         | Inr res \<Rightarrow>
                             \<lparr>resp = (200, OutreachReply res),
                              db = insert_outreach
                                     \<lparr>o_id = new_id, o_candidate_id = candidate_id,
                                      o_provider = ''apollo'', o_step = 1, o_last_sent_at = None,
                                      o_next_send_at = None,
                                      o_meta = Draft (subject res) (body res)\<rparr> s,
                              calls = cs\<rparr>)
                 | _ \<Rightarrow> respond 404 (ErrorMessage ''Role or candidate not found'') s)
           | _ \<Rightarrow> respond 400 (ErrorMessage ''role_id and candidate_id are required'') s))"

section \<open>server.js: the in-memory mock of the endpoints\<close>

text \<open>
  \<^verbatim>\<open>const cand = xs.find(p); if (cand) cand.field = v\<close>: the first element that
  satisfies \<open>p\<close> is changed in place.
\<close>

fun update_first :: "('a \<Rightarrow> bool) \<Rightarrow> ('a \<Rightarrow> 'a) \<Rightarrow> 'a list \<Rightarrow> 'a list" where
  "update_first p f [] = []"
| "update_first p f (x # xs) = (if p x then f x # xs else x # update_first p f xs)"

definition handleSendSequence :: "send_sequence_request \<Rightarrow> store \<Rightarrow> outcome" where
  "handleSendSequence b s =
     (let s1 = s\<lparr>candidates :=
                  update_first (\<lambda>c. Some (c_id c) = ss_candidate_id b)
                    (\<lambda>c. c\<lparr>c_status := Contacted\<rparr>) (candidates s)\<rparr>;
          s2 = s1\<lparr>engagements := engagements s1 @
                  [\<lparr>e_candidate_id = ss_candidate_id b, e_event = Some ''sent'',
                    e_payload = EmptyPayload\<rparr>]\<rparr>
      in respond 200 Success s2)"


definition handleScheduleMeeting :: "schedule_request \<Rightarrow> store \<Rightarrow> outcome" where
  "handleScheduleMeeting b s =
     (let s1 = s\<lparr>candidates :=
                  update_first (\<lambda>c. Some (c_id c) = sm_candidate_id b)
                    (\<lambda>c. c\<lparr>c_status := Interviewing\<rparr>) (candidates s)\<rparr>;
          meetingUrl = ''https://calendly.com/demo/''
                         @ (case sm_candidate_id b of None \<Rightarrow> ''undefined'' | Some i \<Rightarrow> i);
          s2 = s1\<lparr>engagements := engagements s1 @
                  [\<lparr>e_candidate_id = sm_candidate_id b, e_event = Some ''scheduled'',
                    e_payload = MeetingPayload meetingUrl\<rparr>]\<rparr>
      in respond 200 (MeetingUrl meetingUrl) s2)"

text \<open>
  \<open>rnd\<close> gives the first four values of \<^verbatim>\<open>Math.random()\<close>; \<open>new_id\<close> is
  the result of \<^verbatim>\<open>uuid()\<close>.
\<close>

definition handleScreenResume ::
  "screen_request \<Rightarrow> (nat \<Rightarrow> rat) \<Rightarrow> string \<Rightarrow> store \<Rightarrow> outcome" where
  "handleScreenResume b rnd new_id s =
     (let result =
            \<lparr>one_liner = ''Seasoned engineer with relevant experience.'',
             sr_culture_score = rand (rnd 0),
             sr_technical_score = rand (rnd 1),
             sr_experience_score = rand (rnd 2),
             sr_fit_score = \<lfloor>rnd 3 * 100\<rfloor>,
             top_reasons = [''Strong technical background'', ''Relevant experience'',
                            ''Good cultural fit''],
             interview_focus = [''System design'', ''Team collaboration'', ''Technical depth'']\<rparr>;
          s1 = s\<lparr>candidates := candidates s @
                 [\<lparr>c_id = new_id,
                   c_role_id = (case js_or (sq_role_id b) (Some []) of None \<Rightarrow> [] | Some r \<Rightarrow> r),
                   c_name = ''Unknown'',
                   c_summary = one_liner result,
                   culture_score = Some (sr_culture_score result),
                   technical_score = Some (sr_technical_score result),
                   experience_score = Some (sr_experience_score result),
                   fit_score = Some (sr_fit_score result),
                   c_status = Screened\<rparr>]\<rparr>
      in respond 200 (ScreenReply result) s1)"

definition handleXraySearch :: "xray_request \<Rightarrow> store \<Rightarrow> outcome" where
  "handleXraySearch b s =
     respond 200
       (Leads (slice0 mockLeads
                 (case xr_count b of None \<Rightarrow> 3 | Some n \<Rightarrow> if n = 0 then 3 else n))) s"

section \<open>Sequences of operations\<close>

text \<open>One invocation of an edge function, with everything it reads from outside the database.\<close>

datatype operation =
  IngestWebhook "webhook_payload request"
| SendSequence env nat string "send_sequence_request request"
| ScheduleMeeting "schedule_request request"
| ScreenResume env network "nat \<Rightarrow> rat" string "screen_request request"
| XraySearch env network "xray_request request"
| GenerateOutreach env network string "outreach_request request"
| PipelineDaemon faults "nat \<Rightarrow> nat"

fun apply_operation :: "operation \<Rightarrow> store \<Rightarrow> store" where
  "apply_operation (IngestWebhook req) s = db (ingest_webhook req s)"
| "apply_operation (SendSequence ev now new_id req) s = db (send_sequence ev now new_id req s)"
| "apply_operation (ScheduleMeeting req) s = db (schedule_meeting req s)"
| "apply_operation (ScreenResume ev net rnd new_id req) s = db (screen_resume ev net rnd new_id req s)"
| "apply_operation (XraySearch ev net req) s = db (xray_search ev net req s)"
| "apply_operation (GenerateOutreach ev net new_id req) s = db (generate_outreach ev net new_id req s)"
| "apply_operation (PipelineDaemon f clock) s = db (pipeline_daemon f clock s)"

fun run :: "operation list \<Rightarrow> store \<Rightarrow> store" where
  "run [] s = s"
| "run (x # xs) s = run xs (apply_operation x s)"

section \<open>The lifecycle and the ledger contract as the specification words them\<close>

text \<open>
  The two definitions of this section are not taken from the code: they write down the
  specification's state machine and its compare-and-swap contract, to compare the code with.
  \<open>spec_edge\<close> is the graph
  \<^verbatim>\<open>sourced -> contacted -> interested -> screened -> interviewing -> offered -> hired\<close>
  with \<^verbatim>\<open>rejected\<close> reachable from contacted, interested and screened;
  \<open>spec_rank\<close> is the position of a status on the happy path.
\<close>

fun spec_edge :: "status \<Rightarrow> status \<Rightarrow> bool" where
  "spec_edge Sourced Contacted = True"
| "spec_edge Contacted Interested = True"
| "spec_edge Interested Screened = True"
| "spec_edge Screened Interviewing = True"
| "spec_edge Interviewing Offered = True"
| "spec_edge Offered Hired = True"
| "spec_edge Contacted Rejected = True"
| "spec_edge Interested Rejected = True"
| "spec_edge Screened Rejected = True"
| "spec_edge _ _ = False"

fun spec_rank :: "status \<Rightarrow> nat" where
  "spec_rank Sourced = 0"
| "spec_rank Contacted = 1"
| "spec_rank Interested = 2"
| "spec_rank Screened = 3"
| "spec_rank Interviewing = 4"
| "spec_rank Offered = 5"
| "spec_rank Hired = 6"
| "spec_rank Rejected = 7"

text \<open>
  \<^verbatim>\<open>updateStatus(candidateId, from, to) -> success|conflict\<close>: the update is made
  only when the stored status equals the expected one.
\<close>

datatype cas_result = CasSuccess | CasConflict

definition spec_updateStatus ::
  "string \<Rightarrow> status \<Rightarrow> status \<Rightarrow> store \<Rightarrow> cas_result \<times> store" where
  "spec_updateStatus i expected target s =
     (case select_candidate i s of
        None \<Rightarrow> (CasConflict, s)
      | Some c \<Rightarrow>
          if c_status c = expected then (CasSuccess, update_candidate_status i target s)
          else (CasConflict, s))"



section \<open>Example data\<close>

text \<open>
  A role like the one of the seed data, asking for five candidates; one of its candidates
  in a given status; requests addressed to that candidate.
\<close>

definition example_role :: role where
  "example_role =
     \<lparr>r_id = ''r1'', r_title = ''Senior Backend Engineer'', r_parsed_json = None,
      r_status = ''open'', r_min_pipeline = Some 5\<rparr>"

definition example_candidate :: "string \<Rightarrow> status \<Rightarrow> candidate" where
  "example_candidate i st =
     \<lparr>c_id = i, c_role_id = ''r1'', c_name = ''Alice Johnson'', c_summary = [],
      culture_score = None, technical_score = None, experience_score = None,
      fit_score = None, c_status = st\<rparr>"

definition example_store :: "status \<Rightarrow> store" where
  "example_store st =
     \<lparr>roles = [example_role], candidates = [example_candidate ''c1'' st], outreach = [],
      engagements = [], config = []\<rparr>"

text \<open>Two candidates for a role that asks for five.\<close>

definition thin_store :: store where
  "thin_store =
     \<lparr>roles = [example_role],
      candidates = [example_candidate ''c1'' Sourced, example_candidate ''c2'' Contacted],
      outreach = [], engagements = [], config = []\<rparr>"

definition webhook_body :: "string \<Rightarrow> webhook_payload" where
  "webhook_body event =
     \<lparr>wp_candidate_id = Some ''c1'', wp_recipient_id = None, wp_event = Some event,
      wp_type = None\<rparr>"

definition webhook :: "string \<Rightarrow> webhook_payload request" where
  "webhook event = \<lparr>req_method = ''POST'', req_body = Some (webhook_body event)\<rparr>"

definition send_request :: "send_sequence_request request" where
  "send_request = \<lparr>req_method = ''POST'', req_body = Some \<lparr>ss_candidate_id = Some ''c1''\<rparr>\<rparr>"

definition meeting_request :: "schedule_request request" where
  "meeting_request = \<lparr>req_method = ''POST'', req_body = Some \<lparr>sm_candidate_id = Some ''c1''\<rparr>\<rparr>"

definition screening_body :: screen_request where
  "screening_body = \<lparr>sq_role_id = Some ''r1'', sq_resume_text = Some ''Ten years of Node.js''\<rparr>"

definition screening_request :: "screen_request request" where
  "screening_request = \<lparr>req_method = ''POST'', req_body = Some screening_body\<rparr>"

definition search_request :: "xray_request request" where
  "search_request =
     \<lparr>req_method = ''POST'',
      req_body = Some \<lparr>xr_role_id = Some ''r1'', xr_query_overrides = None, xr_count = Some 2\<rparr>\<rparr>"

definition draft_request :: "outreach_request request" where
  "draft_request =
     \<lparr>req_method = ''POST'',
      req_body = Some \<lparr>oq_role_id = Some ''r1'', oq_candidate_id = Some ''c1'', oq_tone = None\<rparr>\<rparr>"

text \<open>An environment with no variable set (every handler in mock mode) and one with every key set.\<close>

definition bare_env :: env where
  "bare_env =
     \<lparr>FEATURE_FLAGS = None, OPENAI_API_KEY = None, GOOGLE_CSE_ID = None, GOOGLE_CSE_KEY = None,
      APOLLO_API_KEY = None, SENDGRID_API_KEY = None\<rparr>"


text \<open>
  Two collaborators: one whose calls all fail, and one whose screening reply carries scores
  outside the ranges the prompt asks for (and within the range of the columns).
\<close>

definition failing_network :: network where
  "failing_network =
     \<lparr>google_cse = (\<lambda>q n. Inl ''Google CSE error 500''),
      openai_screen = (\<lambda>jd resume. Inl ''OpenAI error: 500''),
      openai_outreach = (\<lambda>r c tone. Inl ''OpenAI error 500'')\<rparr>"

definition generous_network :: network where
  "generous_network =
     \<lparr>google_cse = (\<lambda>q n. Inr []),
      openai_screen = (\<lambda>jd resume. Inr
         \<lparr>one_liner = ''Outstanding.'', sr_culture_score = 9, sr_technical_score = 5,
          sr_experience_score = 5, sr_fit_score = 250, top_reasons = [],
          interview_focus = []\<rparr>),
      openai_outreach = (\<lambda>r c tone. Inr \<lparr>subject = ''Hi'', body = ''Hello''\<rparr>)\<rparr>"


definition no_faults :: faults where
  "no_faults = \<lparr>roles_select_fails = False, count_fails = (\<lambda>r. False)\<rparr>"

definition example_clock :: "nat \<Rightarrow> nat" where
  "example_clock k = 1000 + k"

text \<open>Two runs of the random number generator.\<close>

definition low_draws :: "nat \<Rightarrow> rat" where
  "low_draws k = 0"

definition mid_draws :: "nat \<Rightarrow> rat" where
  "mid_draws k = 1 / 2"

section \<open>Auxiliary facts about the storage primitives\<close>

lemma maybeSingle_Some_iff: "maybeSingle rows = Some x \<longleftrightarrow> rows = [x]"
  by (auto simp: maybeSingle_def split: list.splits)

lemma filter_id_map:
  assumes "\<And>c. c_id (f c) = c_id c"
  shows "filter (\<lambda>c. c_id c = i) (map f xs) = map f (filter (\<lambda>c. c_id c = i) xs)"
  using assms by (induction xs) auto

lemma select_candidate_filter:
  "select_candidate i s = Some c \<longleftrightarrow> filter (\<lambda>c. c_id c = i) (candidates s) = [c]"
  by (simp add: select_candidate_def maybeSingle_Some_iff)

lemma select_candidate_id: "select_candidate i s = Some c \<Longrightarrow> c_id c = i"
proof -
  assume "select_candidate i s = Some c"
  then have "c \<in> set (filter (\<lambda>c. c_id c = i) (candidates s))"
    by (simp add: select_candidate_filter)
  then show ?thesis by simp
qed

lemma select_candidate_mem:
  "select_candidate i s = Some c \<Longrightarrow> i \<in> set (map c_id (candidates s))"
proof -
  assume "select_candidate i s = Some c"
  then have "c \<in> set (filter (\<lambda>c. c_id c = i) (candidates s))"
    by (simp add: select_candidate_filter)
  then show ?thesis by auto
qed

lemma candidates_update_status:
  "candidates (update_candidate_status i t s) =
     map (\<lambda>c. if c_id c = i then c\<lparr>c_status := t\<rparr> else c) (candidates s)"
  by (simp add: update_candidate_status_def)

lemma select_update_same:
  assumes "select_candidate i s = Some c"
  shows "select_candidate i (update_candidate_status i t s) = Some (c\<lparr>c_status := t\<rparr>)"
proof -
  have f: "filter (\<lambda>c. c_id c = i) (candidates s) = [c]"
    using assms by (simp add: select_candidate_filter)
  have ci: "c_id c = i" using assms by (rule select_candidate_id)
  have "filter (\<lambda>c. c_id c = i)
          (map (\<lambda>c. if c_id c = i then c\<lparr>c_status := t\<rparr> else c) (candidates s))
        = map (\<lambda>c. if c_id c = i then c\<lparr>c_status := t\<rparr> else c)
            (filter (\<lambda>c. c_id c = i) (candidates s))"
    by (rule filter_id_map) simp
  with f ci show ?thesis
    by (simp only: select_candidate_def candidates_update_status maybeSingle_def) simp
qed

lemma select_update_other:
  assumes ne: "i \<noteq> j"
  shows "select_candidate i (update_candidate_status j t s) = select_candidate i s"
proof -
  have H: "filter (\<lambda>c. c_id c = i)
          (map (\<lambda>c. if c_id c = j then c\<lparr>c_status := t\<rparr> else c) xs)
        = filter (\<lambda>c. c_id c = i) xs" for xs
    using ne by (induction xs) auto
  show ?thesis
    by (simp only: select_candidate_def candidates_update_status H)
qed

lemma candidates_insert_engagement [simp]:
  "candidates (insert_engagement e s) = candidates s"
  by (simp add: insert_engagement_def split: option.splits)

lemma select_insert_engagement [simp]:
  "select_candidate i (insert_engagement e s) = select_candidate i s"
  by (simp add: select_candidate_def)

lemma insert_engagement_present:
  "i \<in> set (map c_id (candidates s)) \<Longrightarrow>
   engagements (insert_engagement \<lparr>e_candidate_id = Some i, e_event = ev, e_payload = p\<rparr> s)
     = engagements s @ [\<lparr>e_candidate_id = Some i, e_event = ev, e_payload = p\<rparr>]"
  by (simp add: insert_engagement_def)

lemma engagements_update_status [simp]:
  "engagements (update_candidate_status i t s) = engagements s"
  by (simp add: update_candidate_status_def)

lemma outreach_update_status [simp]:
  "outreach (update_candidate_status i t s) = outreach s"
  by (simp add: update_candidate_status_def)

lemma outreach_insert_engagement [simp]:
  "outreach (insert_engagement e s) = outreach s"
  by (simp add: insert_engagement_def split: option.splits)

lemma ids_update_status [simp]:
  "map c_id (candidates (update_candidate_status i t s)) = map c_id (candidates s)"
  by (simp add: update_candidate_status_def o_def cong: map_cong)

lemma candidates_insert_outreach [simp]:
  "candidates (insert_outreach r s) = candidates s"
  by (simp add: insert_outreach_def)

lemma engagements_insert_outreach [simp]:
  "engagements (insert_outreach r s) = engagements s"
  by (simp add: insert_outreach_def)

lemma select_insert_outreach [simp]:
  "select_candidate i (insert_outreach r s) = select_candidate i s"
  by (simp add: select_candidate_def)

lemma candidates_update_outreach_step [simp]:
  "candidates (update_outreach_step i n t s) = candidates s"
  by (simp add: update_outreach_step_def)

lemma engagements_update_outreach_step [simp]:
  "engagements (update_outreach_step i n t s) = engagements s"
  by (simp add: update_outreach_step_def)

lemma select_update_outreach_step [simp]:
  "select_candidate i (update_outreach_step j n t s) = select_candidate i s"
  by (simp add: select_candidate_def)

lemma select_outreach_upd [simp]:
  "select_candidate i (s\<lparr>outreach := x\<rparr>) = select_candidate i s"
  by (simp add: select_candidate_def)

text \<open>server.js: changing the first match in place, when the identifier is stored once.\<close>

lemma filter_update_first:
  "filter (\<lambda>c. c_id c = i) xs = [c] \<Longrightarrow>
   filter (\<lambda>c. c_id c = i) (update_first (\<lambda>c. c_id c = i) (\<lambda>c. c\<lparr>c_status := t\<rparr>) xs)
     = [c\<lparr>c_status := t\<rparr>]"
proof (induction xs)
  case Nil
  then show ?case by simp
next
  case (Cons x xs)
  show ?case
  proof (cases "c_id x = i")
    case True
    with Cons.prems show ?thesis by simp
  next
    case False
    with Cons show ?thesis by simp
  qed
qed

section \<open>How one operation changes a stored candidate\<close>

lemma select_after_update:
  assumes "select_candidate i s = Some c"
  shows "\<exists>c'. select_candidate i (update_candidate_status j t s) = Some c'
            \<and> c' = c\<lparr>c_status := c_status c'\<rparr>
            \<and> (c_status c' = c_status c \<or> c_status c' = t)"
proof (cases "i = j")
  case True
  with assms show ?thesis by (simp add: select_update_same)
next
  case False
  with assms show ?thesis by (simp add: select_update_other)
qed

lemma select_insert_candidate:
  assumes "select_candidate i s = Some c"
  shows "select_candidate i (insert_candidate n s) = Some c"
proof (cases "c_id n = i")
  case True
  with select_candidate_mem[OF assms] have "insert_candidate n s = s"
    by (simp add: insert_candidate_def)
  with assms show ?thesis by simp
next
  case False
  with assms show ?thesis
    by (simp add: select_candidate_def insert_candidate_def)
qed

lemma candidates_insert_config [simp]: "candidates (insert_config r s) = candidates s"
  by (simp add: insert_config_def)

lemma outreach_insert_config [simp]: "outreach (insert_config r s) = outreach s"
  by (simp add: insert_config_def)

lemma engagements_insert_config [simp]: "engagements (insert_config r s) = engagements s"
  by (simp add: insert_config_def)

lemma roles_insert_config [simp]: "roles (insert_config r s) = roles s"
  by (simp add: insert_config_def)

lemma daemon_roles_tables:
  "candidates (daemon_roles f clock k rs s) = candidates s
   \<and> outreach (daemon_roles f clock k rs s) = outreach s
   \<and> engagements (daemon_roles f clock k rs s) = engagements s
   \<and> roles (daemon_roles f clock k rs s) = roles s"
  by (induction rs arbitrary: k s) (simp_all add: Let_def)

lemma pipeline_daemon_tables:
  "candidates (db (pipeline_daemon f clock s)) = candidates s
   \<and> outreach (db (pipeline_daemon f clock s)) = outreach s
   \<and> engagements (db (pipeline_daemon f clock s)) = engagements s
   \<and> roles (db (pipeline_daemon f clock s)) = roles s"
  by (simp add: pipeline_daemon_def respond_def Let_def daemon_roles_tables)

lemma ingest_webhook_step:
  assumes "select_candidate i s = Some c"
  shows "\<exists>c'. select_candidate i (db (ingest_webhook req s)) = Some c'
            \<and> c' = c\<lparr>c_status := c_status c'\<rparr>
            \<and> c_status c' \<in> {c_status c, Contacted, Interested, Rejected}"
proof -
  have same: "\<exists>c'. select_candidate i s = Some c' \<and> c' = c\<lparr>c_status := c_status c'\<rparr>
            \<and> c_status c' \<in> {c_status c, Contacted, Interested, Rejected}"
    using assms by simp
  have upd: "\<exists>c'. select_candidate i (update_candidate_status j t (insert_engagement e s)) = Some c'
            \<and> c' = c\<lparr>c_status := c_status c'\<rparr>
            \<and> c_status c' \<in> {c_status c, Contacted, Interested, Rejected}"
    if "t \<in> {Contacted, Interested, Rejected}" for j t e
  proof -
    have "select_candidate i (insert_engagement e s) = Some c" using assms by simp
    from select_after_update[OF this, of j t] that show ?thesis by auto
  qed
  have t: "newStatus_of ev = Some t \<Longrightarrow> t \<in> {Contacted, Interested, Rejected}" for ev t
    by (auto simp: newStatus_of_def Let_def split: if_splits)
  show ?thesis
    using same upd t
    by (auto simp: ingest_webhook_def respond_def Let_def split: option.splits)
qed

lemma schedule_meeting_step:
  assumes "select_candidate i s = Some c"
  shows "\<exists>c'. select_candidate i (db (schedule_meeting req s)) = Some c'
            \<and> c' = c\<lparr>c_status := c_status c'\<rparr>
            \<and> c_status c' \<in> {c_status c, Interviewing}"
proof -
  have upd: "\<exists>c'. select_candidate i (update_candidate_status j Interviewing s) = Some c'
            \<and> c' = c\<lparr>c_status := c_status c'\<rparr>
            \<and> c_status c' \<in> {c_status c, Interviewing}" for j
    using select_after_update[OF assms, of j Interviewing] by auto
  show ?thesis
    using assms upd
    by (auto simp: schedule_meeting_def respond_def Let_def split: option.splits)
qed

lemma send_sequence_step:
  assumes "select_candidate i s = Some c"
  shows "\<exists>c'. select_candidate i (db (send_sequence ev now new_id req s)) = Some c'
            \<and> c' = c\<lparr>c_status := c_status c'\<rparr>
            \<and> c_status c' \<in> {c_status c, Contacted}"
proof -
  have upd: "\<exists>c'. select_candidate i (update_candidate_status j Contacted s1) = Some c'
            \<and> c' = c\<lparr>c_status := c_status c'\<rparr>
            \<and> c_status c' \<in> {c_status c, Contacted}"
    if "select_candidate i s1 = Some c" for j s1
    using select_after_update[OF that, of j Contacted] by auto
  have a: "select_candidate i (insert_outreach r s) = Some c" for r
    using assms by simp
  have b: "select_candidate i (update_outreach_step j n t s) = Some c" for j n t
    using assms by simp
  show ?thesis
    using assms upd[OF a] upd[OF b]
    by (auto simp: send_sequence_def respond_def Let_def split: option.splits)
qed

lemma screen_resume_step:
  assumes "select_candidate i s = Some c"
  shows "select_candidate i (db (screen_resume ev net rnd new_id req s)) = Some c"
  using assms select_insert_candidate[OF assms]
  by (auto simp: screen_resume_def respond_def Let_def split: option.splits sum.splits prod.splits)

lemma xray_search_step:
  assumes "select_candidate i s = Some c"
  shows "select_candidate i (db (xray_search ev net req s)) = Some c"
proof -
  have "db (xray_search ev net req s) = s"
    by (simp add: xray_search_def respond_def searchGoogle_def Let_def
          split: option.split sum.split)
  with assms show ?thesis by simp
qed

lemma generate_outreach_step:
  assumes "select_candidate i s = Some c"
  shows "select_candidate i (db (generate_outreach ev net new_id req s)) = Some c"
proof -
  have "candidates (db (generate_outreach ev net new_id req s)) = candidates s"
    by (simp add: generate_outreach_def callOpenAI_outreach_def respond_def Let_def
          split: option.split sum.split)
  with assms show ?thesis by (simp add: select_candidate_def)
qed

lemma pipeline_daemon_step:
  assumes "select_candidate i s = Some c"
  shows "select_candidate i (db (pipeline_daemon f clock s)) = Some c"
  using assms by (simp add: select_candidate_def pipeline_daemon_tables)

lemma apply_operation_step:
  assumes "select_candidate i s = Some c"
  shows "\<exists>c'. select_candidate i (apply_operation x s) = Some c'
            \<and> c' = c\<lparr>c_status := c_status c'\<rparr>
            \<and> c_status c' \<in> {c_status c, Contacted, Interested, Rejected, Interviewing}"
proof (cases x)
  case (IngestWebhook req)
  with ingest_webhook_step[OF assms, of req] show ?thesis by auto
next
  case (SendSequence ev now new_id req)
  with send_sequence_step[OF assms, of ev now new_id req] show ?thesis by auto
next
  case (ScheduleMeeting req)
  with schedule_meeting_step[OF assms, of req] show ?thesis by auto
next
  case (ScreenResume ev net rnd new_id req)
  with screen_resume_step[OF assms, of ev net rnd new_id req] show ?thesis by simp
next
  case (XraySearch ev net req)
  with xray_search_step[OF assms, of ev net req] show ?thesis by simp
next
  case (GenerateOutreach ev net new_id req)
  with generate_outreach_step[OF assms, of ev net new_id req] show ?thesis by simp
next
  case (PipelineDaemon f clock)
  with pipeline_daemon_step[OF assms, of f clock] show ?thesis by simp
qed

lemma run_step:
  "select_candidate i s = Some c \<Longrightarrow>
   \<exists>c'. select_candidate i (run ops s) = Some c'
      \<and> c' = c\<lparr>c_status := c_status c'\<rparr>
      \<and> c_status c' \<in> {c_status c, Contacted, Interested, Rejected, Interviewing}"
proof (induction ops arbitrary: s c)
  case Nil
  then show ?case by simp
next
  case (Cons x xs)
  from apply_operation_step[OF Cons.prems, of x] obtain c1 where
    c1: "select_candidate i (apply_operation x s) = Some c1"
      "c1 = c\<lparr>c_status := c_status c1\<rparr>"
      "c_status c1 \<in> {c_status c, Contacted, Interested, Rejected, Interviewing}"
    by blast
  from Cons.IH[OF c1(1)] obtain c' where
    c': "select_candidate i (run xs (apply_operation x s)) = Some c'"
      "c' = c1\<lparr>c_status := c_status c'\<rparr>"
      "c_status c' \<in> {c_status c1, Contacted, Interested, Rejected, Interviewing}"
    by blast
  have "c' = c\<lparr>c_status := c_status c'\<rparr>"
    using c1(2) c'(2) by (metis candidate.update_convs(9) candidate.surjective)
  moreover have "c_status c' \<in> {c_status c, Contacted, Interested, Rejected, Interviewing}"
    using c1(3) c'(3) by auto
  ultimately show ?case using c'(1) by simp
qed

section \<open>Event ingestion\<close>



text \<open>
  Claim C7. A notification whose candidate identifier or event kind is missing (absent or
  empty in both of the fields it may come in) is rejected and changes nothing: the database
  after the call is the database before it, so no engagement row is appended and no status
  is changed; a POST is answered with status 400.
\<close>

theorem ingest_rejects_malformed:
  assumes "req_body req = Some p"
    and "\<not> truthy (js_or (wp_candidate_id p) (wp_recipient_id p))
         \<or> \<not> truthy (js_or (wp_event p) (wp_type p))"
  shows "db (ingest_webhook req s) = s
       \<and> fst (resp (ingest_webhook req s)) \<noteq> 200
       \<and> (req_method req = ''POST'' \<longrightarrow>
            resp (ingest_webhook req s) = (400, ErrorMessage ''Missing candidate_id or event''))"
  using assms by (auto simp: ingest_webhook_def respond_def Let_def)

theorem ingest_rejects_malformed_witness:
  "db (ingest_webhook
         \<lparr>req_method = ''POST'',
          req_body = Some \<lparr>wp_candidate_id = Some ''c1'', wp_recipient_id = None,
                           wp_event = None, wp_type = Some []\<rparr>\<rparr>
         (example_store Sourced)) = example_store Sourced
   \<and> resp (ingest_webhook
         \<lparr>req_method = ''POST'',
          req_body = Some \<lparr>wp_candidate_id = Some ''c1'', wp_recipient_id = None,
                           wp_event = None, wp_type = Some []\<rparr>\<rparr>
         (example_store Sourced)) = (400, ErrorMessage ''Missing candidate_id or event'')"
  using ingest_rejects_malformed[of
      "\<lparr>req_method = ''POST'',
        req_body = Some \<lparr>wp_candidate_id = Some ''c1'', wp_recipient_id = None,
                         wp_event = None, wp_type = Some []\<rparr>\<rparr>"
      "\<lparr>wp_candidate_id = Some ''c1'', wp_recipient_id = None, wp_event = None, wp_type = Some []\<rparr>"
      "example_store Sourced"]
  by (simp add: js_or_def truthy_def)

section \<open>Sending a sequence step\<close>

text \<open>
  Claim C10. For a stored candidate, whatever its status, \<^verbatim>\<open>send_sequence\<close>
  answers with success, sets the status to contacted and appends one engagement row of kind
  \<^verbatim>\<open>sent\<close>; the mock endpoint of server.js does the same.
\<close>

theorem send_sequence_always_contacted:
  assumes "ss_candidate_id p = Some i" and "i \<noteq> []" and "select_candidate i s = Some c"
  shows "resp (send_sequence ev now new_id \<lparr>req_method = ''POST'', req_body = Some p\<rparr> s)
           = (200, Success)
       \<and> select_candidate i
           (db (send_sequence ev now new_id \<lparr>req_method = ''POST'', req_body = Some p\<rparr> s))
           = Some (c\<lparr>c_status := Contacted\<rparr>)
       \<and> (\<exists>pl. engagements
                  (db (send_sequence ev now new_id \<lparr>req_method = ''POST'', req_body = Some p\<rparr> s))
                = engagements s @
                    [\<lparr>e_candidate_id = Some i, e_event = Some ''sent'', e_payload = pl\<rparr>])
       \<and> resp (handleSendSequence p s) = (200, Success)
       \<and> select_candidate i (db (handleSendSequence p s)) = Some (c\<lparr>c_status := Contacted\<rparr>)
       \<and> engagements (db (handleSendSequence p s))
           = engagements s @
               [\<lparr>e_candidate_id = Some i, e_event = Some ''sent'', e_payload = EmptyPayload\<rparr>]"
proof -
  let ?out = "send_sequence ev now new_id \<lparr>req_method = ''POST'', req_body = Some p\<rparr> s"
  have mem: "i \<in> set (map c_id (candidates s))"
    using assms(3) by (rule select_candidate_mem)
  have r: "resp ?out = (200, Success)"
    using assms by (simp add: send_sequence_def respond_def Let_def)
  have st: "select_candidate i (db ?out) = Some (c\<lparr>c_status := Contacted\<rparr>)"
    using assms
    by (simp add: send_sequence_def respond_def Let_def select_update_same split: option.splits)
  have log: "\<exists>pl. engagements (db ?out)
                = engagements s @
                    [\<lparr>e_candidate_id = Some i, e_event = Some ''sent'', e_payload = pl\<rparr>]"
    using assms mem
    by (simp add: send_sequence_def respond_def Let_def insert_engagement_present
          split: option.splits)
  have srv: "resp (handleSendSequence p s) = (200, Success)
       \<and> select_candidate i (db (handleSendSequence p s)) = Some (c\<lparr>c_status := Contacted\<rparr>)
       \<and> engagements (db (handleSendSequence p s))
           = engagements s @
               [\<lparr>e_candidate_id = Some i, e_event = Some ''sent'', e_payload = EmptyPayload\<rparr>]"
    using assms filter_update_first[of i "candidates s" c Contacted]
    by (simp add: handleSendSequence_def respond_def Let_def select_candidate_filter)
  from r st log srv show ?thesis by blast
qed

theorem send_sequence_always_contacted_witness:
  "select_candidate ''c1'' (db (send_sequence bare_env 1000 ''o1'' send_request (example_store Hired)))
     = Some (example_candidate ''c1'' Contacted)
   \<and> select_candidate ''c1'' (db (handleSendSequence \<lparr>ss_candidate_id = Some ''c1''\<rparr> (example_store Rejected)))
     = Some (example_candidate ''c1'' Contacted)"
proof -
  have sel: "select_candidate ''c1'' (example_store st) = Some (example_candidate ''c1'' st)" for st
    by (simp add: select_candidate_def example_store_def example_candidate_def maybeSingle_def)
  from send_sequence_always_contacted[OF _ _ sel, where p = "\<lparr>ss_candidate_id = Some ''c1''\<rparr>" and st1 = Hired
         and ev = bare_env and now = 1000 and new_id = "''o1''"]
       send_sequence_always_contacted[OF _ _ sel, where p = "\<lparr>ss_candidate_id = Some ''c1''\<rparr>" and st1 = Rejected
         and ev = bare_env and now = 1000 and new_id = "''o1''"]
  show ?thesis
    by (simp add: send_request_def example_candidate_def)
qed

section \<open>Status transitions\<close>

text \<open>
  Claim C1, as stated, fails. An \<^verbatim>\<open>opened\<close> event moves a hired candidate back to
  contacted, which is no edge of the lifecycle graph and is an earlier state; scheduling a
  meeting moves a sourced candidate straight to interviewing, which is no edge either, and
  in the mock endpoint of server.js it moves a hired candidate back to interviewing.
\<close>

theorem status_regression_counterexample:
  "select_candidate ''c1'' (run [IngestWebhook (webhook ''opened'')] (example_store Hired))
     = Some (example_candidate ''c1'' Contacted)
   \<and> \<not> spec_edge Hired Contacted
   \<and> spec_rank Contacted < spec_rank Hired
   \<and> select_candidate ''c1'' (run [ScheduleMeeting meeting_request] (example_store Sourced))
     = Some (example_candidate ''c1'' Interviewing)
   \<and> \<not> spec_edge Sourced Interviewing
   \<and> select_candidate ''c1''
        (db (handleScheduleMeeting \<lparr>sm_candidate_id = Some ''c1''\<rparr> (example_store Hired)))
     = Some (example_candidate ''c1'' Interviewing)
   \<and> \<not> spec_edge Hired Interviewing
   \<and> spec_rank Interviewing < spec_rank Hired"
  by (simp add: ingest_webhook_def webhook_def webhook_body_def example_store_def
        example_candidate_def js_or_def truthy_def newStatus_of_def respond_def
        insert_engagement_def update_candidate_status_def select_candidate_def maybeSingle_def
        schedule_meeting_def meeting_request_def handleScheduleMeeting_def Let_def)

text \<open>
  Claim C1, amended. No operation checks the stored status: each one leaves the status of
  a stored candidate as it is or overwrites it with its own target (contacted for a send
  or an \<^verbatim>\<open>opened\<close> event, interested for \<^verbatim>\<open>replied\<close>, rejected for
  \<^verbatim>\<open>bounced\<close>, interviewing for a scheduled meeting). So after any sequence of
  operations (webhook ingestion, sequence sending, meeting scheduling, screening, search,
  drafting, daemon cycles) the candidate is still stored, unchanged but for its status, and
  its status is its initial one or one of contacted, interested, rejected and interviewing;
  a scheduled meeting and a send set interviewing and contacted from every prior status.
\<close>

theorem status_after_operations:
  assumes "select_candidate i s = Some c" and "i \<noteq> []"
  shows "(\<exists>c'. select_candidate i (run ops s) = Some c'
            \<and> c' = c\<lparr>c_status := c_status c'\<rparr>
            \<and> c_status c' \<in> {c_status c, Contacted, Interested, Rejected, Interviewing})
       \<and> select_candidate i
           (run [ScheduleMeeting \<lparr>req_method = ''POST'',
                                   req_body = Some \<lparr>sm_candidate_id = Some i\<rparr>\<rparr>] s)
           = Some (c\<lparr>c_status := Interviewing\<rparr>)
       \<and> select_candidate i
           (run [SendSequence ev now new_id
                   \<lparr>req_method = ''POST'', req_body = Some \<lparr>ss_candidate_id = Some i\<rparr>\<rparr>] s)
           = Some (c\<lparr>c_status := Contacted\<rparr>)"
proof -
  have a: "\<exists>c'. select_candidate i (run ops s) = Some c'
            \<and> c' = c\<lparr>c_status := c_status c'\<rparr>
            \<and> c_status c' \<in> {c_status c, Contacted, Interested, Rejected, Interviewing}"
    using assms(1) by (rule run_step)
  have b: "select_candidate i
           (run [ScheduleMeeting \<lparr>req_method = ''POST'',
                                   req_body = Some \<lparr>sm_candidate_id = Some i\<rparr>\<rparr>] s)
           = Some (c\<lparr>c_status := Interviewing\<rparr>)"
    using assms by (simp add: schedule_meeting_def respond_def Let_def select_update_same)
  have c: "select_candidate i
           (run [SendSequence ev now new_id
                   \<lparr>req_method = ''POST'', req_body = Some \<lparr>ss_candidate_id = Some i\<rparr>\<rparr>] s)
           = Some (c\<lparr>c_status := Contacted\<rparr>)"
    using assms
    by (simp add: send_sequence_def respond_def Let_def select_update_same split: option.splits)
  from a b c show ?thesis by blast
qed

theorem status_after_operations_witness:
  "(\<exists>c'. select_candidate ''c1''
            (run [SendSequence bare_env 1000 ''o1'' send_request, IngestWebhook (webhook ''replied''),
                  ScheduleMeeting meeting_request, IngestWebhook (webhook ''opened'')]
               (example_store Sourced)) = Some c'
         \<and> c_status c' \<in> {Sourced, Contacted, Interested, Rejected, Interviewing})
   \<and> select_candidate ''c1'' (run [ScheduleMeeting meeting_request] (example_store Offered))
       = Some (example_candidate ''c1'' Interviewing)"
proof -
  have sel: "select_candidate ''c1'' (example_store st) = Some (example_candidate ''c1'' st)" for st
    by (simp add: select_candidate_def example_store_def example_candidate_def maybeSingle_def)
  have ne: "''c1'' \<noteq> []" by simp
  from status_after_operations[OF sel ne, where st1 = Sourced and
         ops = "[SendSequence bare_env 1000 ''o1'' send_request, IngestWebhook (webhook ''replied''),
                 ScheduleMeeting meeting_request, IngestWebhook (webhook ''opened'')]"
         and ev = bare_env and now = 0 and new_id = "''o1''"]
       status_after_operations[OF sel ne, where st1 = Offered and ops = "[]"
         and ev = bare_env and now = 0 and new_id = "''o1''"]
  show ?thesis
    by (auto simp: meeting_request_def example_candidate_def)
qed

section \<open>Status updates are plain writes\<close>

text \<open>
  Claim C2, as stated, fails. Two notifications for a sourced candidate, \<^verbatim>\<open>replied\<close>
  and then \<^verbatim>\<open>opened\<close>, are both answered with success, and the second overwrites
  the first: the status ends as contacted. A compare-and-swap that expects sourced would
  report a conflict for the second and leave interested.
\<close>

theorem both_updates_succeed_counterexample:
  "resp (ingest_webhook (webhook ''replied'') (example_store Sourced)) = (200, Success)
   \<and> resp (ingest_webhook (webhook ''opened'')
             (db (ingest_webhook (webhook ''replied'') (example_store Sourced)))) = (200, Success)
   \<and> select_candidate ''c1''
        (db (ingest_webhook (webhook ''opened'')
               (db (ingest_webhook (webhook ''replied'') (example_store Sourced)))))
       = Some (example_candidate ''c1'' Contacted)
   \<and> spec_updateStatus ''c1'' Sourced Contacted
        (db (ingest_webhook (webhook ''replied'') (example_store Sourced)))
       = (CasConflict, db (ingest_webhook (webhook ''replied'') (example_store Sourced)))"
  by (simp add: ingest_webhook_def webhook_def webhook_body_def example_store_def
        example_candidate_def js_or_def truthy_def newStatus_of_def respond_def
        insert_engagement_def update_candidate_status_def select_candidate_def maybeSingle_def
        spec_updateStatus_def Let_def)

text \<open>
  Claim C2, amended. A status update is a write keyed on the candidate's identifier alone:
  it takes no expected prior status and is applied whatever is stored. Of two updates of a
  stored candidate applied one after the other, in either order, both take effect and the
  stored status is the target of the one applied last. No handler reports a conflict: the
  answer of \<^verbatim>\<open>ingest_webhook\<close> does not depend on the database, and
  \<^verbatim>\<open>send_sequence\<close> answers success for every stored candidate.
\<close>

theorem status_update_last_write_wins:
  assumes "select_candidate i s = Some c" and "i \<noteq> []"
  shows "select_candidate i (update_candidate_status i b (update_candidate_status i a s))
           = Some (c\<lparr>c_status := b\<rparr>)
       \<and> select_candidate i (update_candidate_status i a (update_candidate_status i b s))
           = Some (c\<lparr>c_status := a\<rparr>)
       \<and> resp (ingest_webhook req s) = resp (ingest_webhook req s')
       \<and> resp (send_sequence ev now new_id
                 \<lparr>req_method = ''POST'', req_body = Some \<lparr>ss_candidate_id = Some i\<rparr>\<rparr> s)
           = (200, Success)"
proof -
  have w: "select_candidate i (update_candidate_status i y (update_candidate_status i x s))
           = Some (c\<lparr>c_status := y\<rparr>)" for x y
    using select_update_same[OF select_update_same[OF assms(1), of x], of y] by simp
  have r: "resp (ingest_webhook req s) = resp (ingest_webhook req s')"
    by (simp add: ingest_webhook_def respond_def Let_def split: option.splits)
  have q: "resp (send_sequence ev now new_id
                 \<lparr>req_method = ''POST'', req_body = Some \<lparr>ss_candidate_id = Some i\<rparr>\<rparr> s)
           = (200, Success)"
    using assms by (simp add: send_sequence_def respond_def Let_def)
  from w[of a b] w[of b a] r q show ?thesis by blast
qed

theorem status_update_last_write_wins_witness:
  "select_candidate ''c1''
     (update_candidate_status ''c1'' Contacted
        (update_candidate_status ''c1'' Interested (example_store Sourced)))
     = Some (example_candidate ''c1'' Contacted)
   \<and> select_candidate ''c1''
     (update_candidate_status ''c1'' Interested
        (update_candidate_status ''c1'' Contacted (example_store Sourced)))
     = Some (example_candidate ''c1'' Interested)"
proof -
  have sel: "select_candidate ''c1'' (example_store Sourced) = Some (example_candidate ''c1'' Sourced)"
    by (simp add: select_candidate_def example_store_def example_candidate_def maybeSingle_def)
  have ne: "''c1'' \<noteq> []" by simp
  from status_update_last_write_wins[OF sel ne, of Contacted Interested]
  show ?thesis by (simp add: example_candidate_def)
qed

section \<open>The outreach record\<close>

text \<open>
  Claim C5, as stated, fails. The first send for a candidate creates the outreach record
  with \<^verbatim>\<open>next_send_at\<close> null, and the second send increments the step and leaves
  it null: no next send time is computed.
\<close>

theorem no_next_send_time_counterexample:
  "outreach (db (send_sequence bare_env 1000 ''o1'' send_request (example_store Sourced)))
     = [\<lparr>o_id = ''o1'', o_candidate_id = ''c1'', o_provider = ''none'', o_step = 1,
         o_last_sent_at = Some 1000, o_next_send_at = None, o_meta = EmptyMeta\<rparr>]
   \<and> outreach (db (send_sequence bare_env 2000 ''o2'' send_request
                  (db (send_sequence bare_env 1000 ''o1'' send_request (example_store Sourced)))))
     = [\<lparr>o_id = ''o1'', o_candidate_id = ''c1'', o_provider = ''none'', o_step = 2,
         o_last_sent_at = Some 2000, o_next_send_at = None, o_meta = EmptyMeta\<rparr>]"
  by (simp add: send_sequence_def send_request_def example_store_def example_candidate_def
        bare_env_def truthy_def respond_def insert_engagement_def insert_outreach_def
        update_outreach_step_def pg_int_def
        update_candidate_status_def select_candidate_def maybeSingle_def featureFlags_def
        js_or_def Let_def)

text \<open>
  Claim C5, amended. On every send for a stored candidate: when the candidate has exactly
  one outreach record and the incremented step fits the \<^verbatim>\<open>int\<close> column (the step
  is below 2147483647), the step is incremented by one, \<^verbatim>\<open>last_sent_at\<close> is set to
  the current time and \<^verbatim>\<open>next_send_at\<close> and the other columns are left as they
  were; when the incremented step does not fit, the update is refused and the outreach
  records are left as they were; when the look-up gives no single record, a record is
  inserted at step 1 with \<^verbatim>\<open>last_sent_at\<close> the current time and
  \<^verbatim>\<open>next_send_at\<close> null. No backoff schedule is computed.
\<close>

theorem send_sequence_outreach_record:
  assumes "select_candidate i s = Some c" and "i \<noteq> []"
  shows "(maybeSingle (filter (\<lambda>r. o_candidate_id r = i) (outreach s)) = Some ex
            \<and> pg_int (o_step ex + 1) \<longrightarrow>
            maybeSingle (filter (\<lambda>r. o_candidate_id r = i)
              (outreach (db (send_sequence ev now new_id
                 \<lparr>req_method = ''POST'', req_body = Some \<lparr>ss_candidate_id = Some i\<rparr>\<rparr> s))))
            = Some (ex\<lparr>o_step := o_step ex + 1, o_last_sent_at := Some now\<rparr>))
       \<and> (maybeSingle (filter (\<lambda>r. o_candidate_id r = i) (outreach s)) = Some ex
            \<and> \<not> pg_int (o_step ex + 1) \<longrightarrow>
            outreach (db (send_sequence ev now new_id
                 \<lparr>req_method = ''POST'', req_body = Some \<lparr>ss_candidate_id = Some i\<rparr>\<rparr> s))
            = outreach s)
       \<and> (maybeSingle (filter (\<lambda>r. o_candidate_id r = i) (outreach s)) = None
            \<and> new_id \<notin> set (map o_id (outreach s)) \<longrightarrow>
            (\<exists>prov. outreach (db (send_sequence ev now new_id
                 \<lparr>req_method = ''POST'', req_body = Some \<lparr>ss_candidate_id = Some i\<rparr>\<rparr> s))
              = outreach s @
                  [\<lparr>o_id = new_id, o_candidate_id = i, o_provider = prov, o_step = 1,
                    o_last_sent_at = Some now, o_next_send_at = None, o_meta = EmptyMeta\<rparr>]))"
proof -
  let ?out = "send_sequence ev now new_id
                 \<lparr>req_method = ''POST'', req_body = Some \<lparr>ss_candidate_id = Some i\<rparr>\<rparr> s"
  have mem: "i \<in> set (map c_id (candidates s))"
    using assms(1) by (rule select_candidate_mem)
  have one: "maybeSingle (filter (\<lambda>r. o_candidate_id r = i) (outreach (db ?out)))
            = Some (ex\<lparr>o_step := o_step ex + 1, o_last_sent_at := Some now\<rparr>)"
    if e: "maybeSingle (filter (\<lambda>r. o_candidate_id r = i) (outreach s)) = Some ex"
      and fits: "pg_int (o_step ex + 1)"
  proof -
    let ?g = "\<lambda>r. if o_id r = o_id ex
                   then r\<lparr>o_step := o_step ex + 1, o_last_sent_at := Some now\<rparr> else r"
    have f: "filter (\<lambda>r. o_candidate_id r = i) (outreach s) = [ex]"
      using e by (simp add: maybeSingle_Some_iff)
    have comm: "filter (\<lambda>r. o_candidate_id r = i) (map ?g xs)
                = map ?g (filter (\<lambda>r. o_candidate_id r = i) xs)" for xs
      by (induction xs) auto
    have o: "outreach (db ?out) = map ?g (outreach s)"
      using assms e fits
      by (simp add: send_sequence_def respond_def Let_def update_outreach_step_def)
    show ?thesis
      by (simp only: o comm f) (simp add: maybeSingle_def)
  qed
  have refused: "outreach (db ?out) = outreach s"
    if "maybeSingle (filter (\<lambda>r. o_candidate_id r = i) (outreach s)) = Some ex"
      and "\<not> pg_int (o_step ex + 1)"
    using assms that
    by (simp add: send_sequence_def respond_def Let_def update_outreach_step_def)
  have none: "\<exists>prov. outreach (db ?out)
              = outreach s @
                  [\<lparr>o_id = new_id, o_candidate_id = i, o_provider = prov, o_step = 1,
                    o_last_sent_at = Some now, o_next_send_at = None, o_meta = EmptyMeta\<rparr>]"
    if "maybeSingle (filter (\<lambda>r. o_candidate_id r = i) (outreach s)) = None"
      and "new_id \<notin> set (map o_id (outreach s))"
    using assms mem that
    by (simp add: send_sequence_def respond_def Let_def insert_outreach_def pg_int_def)
  from one refused none show ?thesis by blast
qed

theorem send_sequence_outreach_record_witness:
  "maybeSingle (filter (\<lambda>r. o_candidate_id r = ''c1'')
     (outreach (db (send_sequence bare_env 2000 ''o2'' send_request
        ((example_store Contacted)\<lparr>outreach :=
            [\<lparr>o_id = ''o1'', o_candidate_id = ''c1'', o_provider = ''none'', o_step = 1,
              o_last_sent_at = Some 1000, o_next_send_at = None, o_meta = EmptyMeta\<rparr>]\<rparr>)))))
   = Some \<lparr>o_id = ''o1'', o_candidate_id = ''c1'', o_provider = ''none'', o_step = 2,
            o_last_sent_at = Some 2000, o_next_send_at = None, o_meta = EmptyMeta\<rparr>
   \<and> outreach (db (send_sequence bare_env 2000 ''o2'' send_request
        ((example_store Contacted)\<lparr>outreach :=
            [\<lparr>o_id = ''o1'', o_candidate_id = ''c1'', o_provider = ''none'',
              o_step = 2147483647, o_last_sent_at = Some 1000, o_next_send_at = None,
              o_meta = EmptyMeta\<rparr>]\<rparr>)))
     = [\<lparr>o_id = ''o1'', o_candidate_id = ''c1'', o_provider = ''none'',
         o_step = 2147483647, o_last_sent_at = Some 1000, o_next_send_at = None,
         o_meta = EmptyMeta\<rparr>]
   \<and> (\<exists>prov. outreach (db (send_sequence bare_env 1000 ''o1'' send_request (example_store Sourced)))
         = [\<lparr>o_id = ''o1'', o_candidate_id = ''c1'', o_provider = prov, o_step = 1,
             o_last_sent_at = Some 1000, o_next_send_at = None, o_meta = EmptyMeta\<rparr>])"
proof -
  let ?row = "\<lparr>o_id = ''o1'', o_candidate_id = ''c1'', o_provider = ''none'', o_step = 1,
              o_last_sent_at = Some 1000, o_next_send_at = None, o_meta = EmptyMeta\<rparr>"
  let ?top = "\<lparr>o_id = ''o1'', o_candidate_id = ''c1'', o_provider = ''none'',
              o_step = 2147483647, o_last_sent_at = Some 1000, o_next_send_at = None,
              o_meta = EmptyMeta\<rparr>"
  have sel1: "select_candidate ''c1'' ((example_store Contacted)\<lparr>outreach := x\<rparr>)
              = Some (example_candidate ''c1'' Contacted)" for x
    by (simp add: select_candidate_def example_store_def example_candidate_def maybeSingle_def)
  have sel2: "select_candidate ''c1'' (example_store Sourced) = Some (example_candidate ''c1'' Sourced)"
    by (simp add: select_candidate_def example_store_def example_candidate_def maybeSingle_def)
  have ne: "''c1'' \<noteq> []" by simp
  from send_sequence_outreach_record[OF sel1 ne, where x1 = "[?row]" and ex = ?row
         and ev = bare_env and now = 2000 and new_id = "''o2''"]
  have a: "maybeSingle (filter (\<lambda>r. o_candidate_id r = ''c1'')
     (outreach (db (send_sequence bare_env 2000 ''o2'' send_request
        ((example_store Contacted)\<lparr>outreach := [?row]\<rparr>)))))
   = Some \<lparr>o_id = ''o1'', o_candidate_id = ''c1'', o_provider = ''none'', o_step = 2,
            o_last_sent_at = Some 2000, o_next_send_at = None, o_meta = EmptyMeta\<rparr>"
    by (simp add: send_request_def maybeSingle_def pg_int_def)
  from send_sequence_outreach_record[OF sel1 ne, where x1 = "[?top]" and ex = ?top
         and ev = bare_env and now = 2000 and new_id = "''o2''"]
  have b: "outreach (db (send_sequence bare_env 2000 ''o2'' send_request
        ((example_store Contacted)\<lparr>outreach := [?top]\<rparr>))) = [?top]"
    by (simp add: send_request_def maybeSingle_def pg_int_def)
  from send_sequence_outreach_record[OF sel2 ne, where ev = bare_env
         and now = 1000 and new_id = "''o1''"]
  have c: "\<exists>prov. outreach (db (send_sequence bare_env 1000 ''o1'' send_request (example_store Sourced)))
         = [\<lparr>o_id = ''o1'', o_candidate_id = ''c1'', o_provider = prov, o_step = 1,
             o_last_sent_at = Some 1000, o_next_send_at = None, o_meta = EmptyMeta\<rparr>]"
    by (simp add: send_request_def maybeSingle_def example_store_def)
  from a b c show ?thesis by blast
qed

section \<open>The pipeline daemon\<close>

lemma or0_Some [simp]: "or0 (Some n) = n"
  by (simp add: or0_def)

lemma insert_config_key: "cfg_key r \<in> set (map cfg_key (config (insert_config r s)))"
  by (simp add: insert_config_def)

lemma insert_config_keys_mono:
  "set (map cfg_key (config s)) \<subseteq> set (map cfg_key (config (insert_config r s)))"
  by (auto simp: insert_config_def)

lemma daemon_roles_keys_mono:
  "set (map cfg_key (config s)) \<subseteq> set (map cfg_key (config (daemon_roles f clock k rs s)))"
proof (induction rs arbitrary: k s)
  case Nil
  then show ?case by simp
next
  case (Cons r rs)
  show ?case
    using Cons.IH insert_config_keys_mono
    by (simp add: Let_def) (meson order_trans)
qed

lemma daemon_roles_logs:
  assumes "r \<in> set rs" and "\<not> count_fails f (r_id r)"
    and "int (length (filter (\<lambda>c. c_role_id c = r_id r) (candidates s))) < or0 (r_min_pipeline r)"
  shows "\<exists>t. ''pipeline_'' @ r_id r @ ''_'' @ dec t
               \<in> set (map cfg_key (config (daemon_roles f clock k rs s)))"
  using assms
proof (induction rs arbitrary: k s)
  case Nil
  then show ?case by simp
next
  case (Cons x xs)
  show ?case
  proof (cases "x = r")
    case True
    let ?row = "\<lparr>cfg_key = ''pipeline_'' @ r_id r @ ''_'' @ dec (clock k),
                 cfg_message = ''Pipeline underfilled for role '' @ r_title r,
                 cfg_count = int (length (filter (\<lambda>c. c_role_id c = r_id r) (candidates s)))\<rparr>"
    have "cfg_key ?row \<in> set (map cfg_key (config (insert_config ?row s)))"
      by (rule insert_config_key)
    then have "''pipeline_'' @ r_id r @ ''_'' @ dec (clock k)
               \<in> set (map cfg_key (config (daemon_roles f clock (Suc k) xs (insert_config ?row s))))"
      using daemon_roles_keys_mono[of "insert_config ?row s" f clock "Suc k" xs] by auto
    with True Cons.prems show ?thesis
      by (auto simp: Let_def)
  next
    case False
    with Cons.prems have "r \<in> set xs" by simp
    from Cons.IH[OF this Cons.prems(2)] Cons.prems(3) show ?thesis
      by (simp add: Let_def)
  qed
qed

text \<open>
  Claim C4, as stated, fails. For a role that asks for five candidates and has two, a
  cycle makes no outbound call at all, so it requests no leads and no enrichment, and it
  creates no candidate: the two stored candidates are all there is afterwards. What it does
  is insert one log row that records the count.
\<close>

theorem thin_role_no_search_counterexample:
  "calls (pipeline_daemon no_faults example_clock thin_store) = []
   \<and> candidates (db (pipeline_daemon no_faults example_clock thin_store)) =
       [example_candidate ''c1'' Sourced, example_candidate ''c2'' Contacted]
   \<and> config (db (pipeline_daemon no_faults example_clock thin_store)) =
       [\<lparr>cfg_key = ''pipeline_r1_1000'',
         cfg_message = ''Pipeline underfilled for role Senior Backend Engineer'',
         cfg_count = 2\<rparr>]"
proof -
  have d: "dec 1000 = ''1000''" by code_simp
  show ?thesis
    by (simp add: pipeline_daemon_def respond_def no_faults_def example_clock_def thin_store_def
          example_role_def example_candidate_def insert_config_def Let_def d)
qed

text \<open>
  Claim C4, amended. One cycle of the daemon makes no outbound call and leaves the roles,
  candidates, outreach records and engagement events as they were: it requests no leads and
  creates no candidate. When the open roles can be read, for every open role whose candidate
  count is below its \<^verbatim>\<open>min_pipeline\<close> (and can be read) the configuration table holds,
  after the cycle, a log row keyed \<^verbatim>\<open>pipeline_<role id>_<time>\<close>; when the role is
  the only open one and the key is new, the cycle inserts exactly that one row, with the
  message naming the role's title and the count.
\<close>

theorem daemon_logs_thin_pipeline:
  assumes "\<not> roles_select_fails f"
  shows "resp (pipeline_daemon f clock s) = (200, Success)
       \<and> calls (pipeline_daemon f clock s) = []
       \<and> candidates (db (pipeline_daemon f clock s)) = candidates s
       \<and> outreach (db (pipeline_daemon f clock s)) = outreach s
       \<and> engagements (db (pipeline_daemon f clock s)) = engagements s
       \<and> roles (db (pipeline_daemon f clock s)) = roles s
       \<and> (\<forall>r \<in> set (roles s).
            r_status r = ''open'' \<and> \<not> count_fails f (r_id r)
            \<and> int (length (filter (\<lambda>c. c_role_id c = r_id r) (candidates s)))
                < or0 (r_min_pipeline r)
            \<longrightarrow> (\<exists>t. ''pipeline_'' @ r_id r @ ''_'' @ dec t
                      \<in> set (map cfg_key (config (db (pipeline_daemon f clock s))))))
       \<and> (\<forall>r. filter (\<lambda>r. r_status r = ''open'') (roles s) = [r]
            \<and> \<not> count_fails f (r_id r)
            \<and> int (length (filter (\<lambda>c. c_role_id c = r_id r) (candidates s)))
                < or0 (r_min_pipeline r)
            \<and> ''pipeline_'' @ r_id r @ ''_'' @ dec (clock 0) \<notin> set (map cfg_key (config s))
            \<longrightarrow> config (db (pipeline_daemon f clock s)) =
                  config s @
                    [\<lparr>cfg_key = ''pipeline_'' @ r_id r @ ''_'' @ dec (clock 0),
                      cfg_message = ''Pipeline underfilled for role '' @ r_title r,
                      cfg_count = int (length (filter (\<lambda>c. c_role_id c = r_id r)
                                                 (candidates s)))\<rparr>])"
proof -
  have a: "resp (pipeline_daemon f clock s) = (200, Success)"
    and b: "calls (pipeline_daemon f clock s) = []"
    by (simp_all add: pipeline_daemon_def respond_def Let_def)
  note t = pipeline_daemon_tables[of f clock s]
  have c: "\<exists>t. ''pipeline_'' @ r_id r @ ''_'' @ dec t
                      \<in> set (map cfg_key (config (db (pipeline_daemon f clock s))))"
    if "r \<in> set (roles s)" and "r_status r = ''open''" and "\<not> count_fails f (r_id r)"
      and "int (length (filter (\<lambda>c. c_role_id c = r_id r) (candidates s)))
                < or0 (r_min_pipeline r)" for r
  proof -
    from that(1,2) have "r \<in> set (filter (\<lambda>r. r_status r = ''open'') (roles s))" by simp
    from daemon_roles_logs[OF this that(3,4)] assms show ?thesis
      by (simp add: pipeline_daemon_def respond_def Let_def)
  qed
  have d: "config (db (pipeline_daemon f clock s)) =
                  config s @
                    [\<lparr>cfg_key = ''pipeline_'' @ r_id r @ ''_'' @ dec (clock 0),
                      cfg_message = ''Pipeline underfilled for role '' @ r_title r,
                      cfg_count = int (length (filter (\<lambda>c. c_role_id c = r_id r)
                                                 (candidates s)))\<rparr>]"
    if "filter (\<lambda>r. r_status r = ''open'') (roles s) = [r]"
      and "\<not> count_fails f (r_id r)"
      and "int (length (filter (\<lambda>c. c_role_id c = r_id r) (candidates s)))
                < or0 (r_min_pipeline r)"
      and "''pipeline_'' @ r_id r @ ''_'' @ dec (clock 0) \<notin> set (map cfg_key (config s))" for r
    using that assms
    by (simp add: pipeline_daemon_def respond_def Let_def insert_config_def)
  from a b t c d show ?thesis by blast
qed

theorem daemon_logs_thin_pipeline_witness:
  "candidates (db (pipeline_daemon no_faults example_clock thin_store)) = candidates thin_store
   \<and> calls (pipeline_daemon no_faults example_clock thin_store) = []
   \<and> config (db (pipeline_daemon no_faults example_clock thin_store)) =
       [\<lparr>cfg_key = ''pipeline_r1_'' @ dec 1000,
         cfg_message = ''Pipeline underfilled for role Senior Backend Engineer'',
         cfg_count = 2\<rparr>]
   \<and> (\<exists>t. ''pipeline_r1_'' @ dec t
          \<in> set (map cfg_key (config (db (pipeline_daemon no_faults example_clock thin_store)))))"
proof -
  have f: "\<not> roles_select_fails no_faults" by (simp add: no_faults_def)
  have h: "filter (\<lambda>r. r_status r = ''open'') (roles thin_store) = [example_role]
            \<and> \<not> count_fails no_faults (r_id example_role)
            \<and> int (length (filter (\<lambda>c. c_role_id c = r_id example_role) (candidates thin_store)))
                < or0 (r_min_pipeline example_role)
            \<and> ''pipeline_'' @ r_id example_role @ ''_'' @ dec (example_clock 0)
                \<notin> set (map cfg_key (config thin_store))"
    by (simp add: thin_store_def example_role_def example_candidate_def no_faults_def)
  from daemon_logs_thin_pipeline[OF f, of example_clock thin_store] h
  have "candidates (db (pipeline_daemon no_faults example_clock thin_store)) = candidates thin_store"
    and "calls (pipeline_daemon no_faults example_clock thin_store) = []"
    and "config (db (pipeline_daemon no_faults example_clock thin_store)) =
                  config thin_store @
                    [\<lparr>cfg_key = ''pipeline_'' @ r_id example_role @ ''_'' @ dec (example_clock 0),
                      cfg_message = ''Pipeline underfilled for role '' @ r_title example_role,
                      cfg_count = int (length (filter (\<lambda>c. c_role_id c = r_id example_role)
                                                 (candidates thin_store)))\<rparr>]"
    by blast+
  moreover
  have g: "example_role \<in> set (roles thin_store) \<and> r_status example_role = ''open''"
    by (simp add: thin_store_def example_role_def)
  from daemon_logs_thin_pipeline[OF f, of example_clock thin_store] g h
  have "\<exists>t. ''pipeline_'' @ r_id example_role @ ''_'' @ dec t
          \<in> set (map cfg_key (config (db (pipeline_daemon no_faults example_clock thin_store))))"
    by blast
  ultimately show ?thesis
    by (simp add: thin_store_def example_role_def example_candidate_def example_clock_def)
qed

text \<open>
  Claim C6. Of two consecutive daemon cycles, the second sends nothing and changes no
  status: the candidates, the outreach records and the engagement events after it are those
  after the first cycle, and it makes no outbound call.
\<close>

theorem second_cycle_sends_nothing:
  "candidates (db (pipeline_daemon f2 clock2 (db (pipeline_daemon f1 clock1 s))))
     = candidates (db (pipeline_daemon f1 clock1 s))
   \<and> outreach (db (pipeline_daemon f2 clock2 (db (pipeline_daemon f1 clock1 s))))
     = outreach (db (pipeline_daemon f1 clock1 s))
   \<and> engagements (db (pipeline_daemon f2 clock2 (db (pipeline_daemon f1 clock1 s))))
     = engagements (db (pipeline_daemon f1 clock1 s))
   \<and> calls (pipeline_daemon f2 clock2 (db (pipeline_daemon f1 clock1 s))) = []"
proof -
  have "calls (pipeline_daemon f2 clock2 (db (pipeline_daemon f1 clock1 s))) = []"
    by (simp add: pipeline_daemon_def respond_def Let_def)
  with pipeline_daemon_tables[of f2 clock2 "db (pipeline_daemon f1 clock1 s)"]
  show ?thesis by simp
qed

section \<open>Mock mode\<close>




text \<open>
  Claim C8, as stated, fails. In mock mode the scores of a screening are drawn with
  \<^verbatim>\<open>Math.random()\<close>: two invocations with the same request, environment and
  database answer differently when the draws differ, in the edge function and in the mock
  endpoint of server.js alike.
\<close>

theorem mock_screening_differs_counterexample:
  "resp (screen_resume bare_env failing_network low_draws ''n1'' screening_request
           (example_store Sourced))
     \<noteq> resp (screen_resume bare_env failing_network mid_draws ''n1'' screening_request
                (example_store Sourced))
   \<and> resp (handleScreenResume screening_body low_draws ''n1'' (example_store Sourced))
     \<noteq> resp (handleScreenResume screening_body mid_draws ''n1'' (example_store Sourced))"
  by (simp add: screen_resume_def handleScreenResume_def screening_request_def
        screening_body_def bare_env_def truthy_def featureFlags_def js_or_def mockScreen_def
        rand_def low_draws_def mid_draws_def respond_def Let_def)

text \<open>
  Claim C8, amended. In mock mode (the handler's feature flag set, or its credentials
  absent) the search, drafting and screening handlers make no outbound call, and what they
  answer does not depend on the external services. The search answers with the first leads
  of a fixed list, as many as asked for (five by default), whatever the database holds; the
  drafted message is fixed by the request and the database; the screening answer is fixed
  by the request and the random draws, and carries the same summary, reasons and interview
  topics for every draw. The scores of the screening are drawn at random, so they are not
  the same from one invocation to the next. The search endpoint of server.js answers with
  the first leads of the same list, three by default.
\<close>

theorem mock_mode_canned_results:
  "((''mock_xray_search'' \<in> set (featureFlags ev) \<or> \<not> truthy (GOOGLE_CSE_KEY ev)
        \<or> \<not> truthy (GOOGLE_CSE_ID ev)) \<longrightarrow>
      calls (xray_search ev net xreq s) = []
      \<and> resp (xray_search ev net xreq s) = resp (xray_search ev net' xreq s')
      \<and> (\<forall>b. req_method xreq = ''POST'' \<and> req_body xreq = Some b \<and> truthy (xr_role_id b) \<longrightarrow>
            resp (xray_search ev net xreq s) =
              (200, Leads (slice0 mockLeads
                 (case xr_count b of None \<Rightarrow> 5 | Some n \<Rightarrow> if n = 0 then 5 else n)))))
   \<and> ((''mock_outreach'' \<in> set (featureFlags ev) \<or> \<not> truthy (OPENAI_API_KEY ev)) \<longrightarrow>
      calls (generate_outreach ev net new_id oreq s) = []
      \<and> resp (generate_outreach ev net new_id oreq s)
          = resp (generate_outreach ev net' new_id' oreq s))
   \<and> ((''mock_screen_resume'' \<in> set (featureFlags ev) \<or> \<not> truthy (OPENAI_API_KEY ev)) \<longrightarrow>
      calls (screen_resume ev net rnd new_id sreq s) = []
      \<and> resp (screen_resume ev net rnd new_id sreq s)
          = resp (screen_resume ev net' rnd new_id' sreq s')
      \<and> (\<forall>r r'. resp (screen_resume ev net rnd new_id sreq s) = (200, ScreenReply r)
                \<and> resp (screen_resume ev net rnd' new_id sreq s) = (200, ScreenReply r')
            \<longrightarrow> one_liner r = one_liner r' \<and> top_reasons r = top_reasons r'
                \<and> interview_focus r = interview_focus r'))
   \<and> calls (handleXraySearch xb s) = []
   \<and> resp (handleXraySearch xb s) =
       (200, Leads (slice0 mockLeads
          (case xr_count xb of None \<Rightarrow> 3 | Some n \<Rightarrow> if n = 0 then 3 else n)))"
proof -
  have x: "calls (xray_search ev net xreq s) = []
      \<and> resp (xray_search ev net xreq s) = resp (xray_search ev net' xreq s')
      \<and> (\<forall>b. req_method xreq = ''POST'' \<and> req_body xreq = Some b \<and> truthy (xr_role_id b) \<longrightarrow>
            resp (xray_search ev net xreq s) =
              (200, Leads (slice0 mockLeads
                 (case xr_count b of None \<Rightarrow> 5 | Some n \<Rightarrow> if n = 0 then 5 else n))))"
    if "''mock_xray_search'' \<in> set (featureFlags ev) \<or> \<not> truthy (GOOGLE_CSE_KEY ev)
        \<or> \<not> truthy (GOOGLE_CSE_ID ev)"
    using that
    by (auto simp: xray_search_def xray_count_def respond_def Let_def truthy_def
          split: option.splits)
  have o: "calls (generate_outreach ev net new_id oreq s) = []
      \<and> resp (generate_outreach ev net new_id oreq s)
          = resp (generate_outreach ev net' new_id' oreq s)"
    if "''mock_outreach'' \<in> set (featureFlags ev) \<or> \<not> truthy (OPENAI_API_KEY ev)"
    using that
    by (auto simp: generate_outreach_def respond_def Let_def split: option.splits)
  have m: "calls (screen_resume ev net rnd new_id sreq s) = []
      \<and> resp (screen_resume ev net rnd new_id sreq s)
          = resp (screen_resume ev net' rnd new_id' sreq s')
      \<and> (\<forall>r r'. resp (screen_resume ev net rnd new_id sreq s) = (200, ScreenReply r)
                \<and> resp (screen_resume ev net rnd' new_id sreq s) = (200, ScreenReply r')
            \<longrightarrow> one_liner r = one_liner r' \<and> top_reasons r = top_reasons r'
                \<and> interview_focus r = interview_focus r')"
    if "''mock_screen_resume'' \<in> set (featureFlags ev) \<or> \<not> truthy (OPENAI_API_KEY ev)"
    using that
    by (auto simp: screen_resume_def respond_def Let_def mockScreen_def
          split: option.splits if_splits)
  have h: "calls (handleXraySearch xb s) = []
   \<and> resp (handleXraySearch xb s) =
       (200, Leads (slice0 mockLeads
          (case xr_count xb of None \<Rightarrow> 3 | Some n \<Rightarrow> if n = 0 then 3 else n)))"
    by (simp add: handleXraySearch_def respond_def)
  from x o m h show ?thesis by blast
qed

theorem mock_mode_canned_results_witness:
  "calls (xray_search bare_env failing_network search_request (example_store Sourced)) = []
   \<and> resp (xray_search bare_env failing_network search_request (example_store Sourced))
       = (200, Leads (take 2 mockLeads))
   \<and> calls (generate_outreach bare_env failing_network ''o1'' draft_request
               (example_store Sourced)) = []
   \<and> resp (generate_outreach bare_env failing_network ''o1'' draft_request (example_store Sourced))
       = resp (generate_outreach bare_env generous_network ''o2'' draft_request
                 (example_store Sourced))
   \<and> calls (screen_resume bare_env failing_network mid_draws ''n1'' screening_request
               (example_store Sourced)) = []
   \<and> resp (screen_resume bare_env failing_network mid_draws ''n1'' screening_request
             (example_store Sourced))
       = resp (screen_resume bare_env generous_network mid_draws ''n2'' screening_request
                 (example_store Hired))
   \<and> one_liner (mockScreen mid_draws) = one_liner (mockScreen low_draws)
   \<and> top_reasons (mockScreen mid_draws) = top_reasons (mockScreen low_draws)"
proof -
  have e: "\<not> truthy (GOOGLE_CSE_KEY bare_env)" "\<not> truthy (OPENAI_API_KEY bare_env)"
    by (simp_all add: bare_env_def truthy_def)
  have b: "req_method search_request = ''POST''
           \<and> req_body search_request
               = Some \<lparr>xr_role_id = Some ''r1'', xr_query_overrides = None, xr_count = Some 2\<rparr>
           \<and> truthy (xr_role_id \<lparr>xr_role_id = Some ''r1'', xr_query_overrides = None,
                                  xr_count = Some 2\<rparr>)"
    by (simp add: search_request_def truthy_def)
  have r: "resp (screen_resume bare_env failing_network d ''n1'' screening_request
             (example_store Sourced)) = (200, ScreenReply (mockScreen d))" for d
    by (simp add: screen_resume_def screening_request_def screening_body_def bare_env_def
          truthy_def featureFlags_def js_or_def Let_def)
  note w = mock_mode_canned_results[where ev = bare_env and net = failing_network
         and net' = generous_network and xreq = search_request and oreq = draft_request
         and sreq = screening_request and s = "example_store Sourced"
         and rnd = mid_draws and rnd' = low_draws
         and xb = "\<lparr>xr_role_id = None, xr_query_overrides = None, xr_count = None\<rparr>"]
  from w[where s' = "example_store Hired" and new_id = "''n1''" and new_id' = "''n2''"]
  have 1: "calls (xray_search bare_env failing_network search_request (example_store Sourced)) = []"
    and 2: "resp (xray_search bare_env failing_network search_request (example_store Sourced)) =
              (200, Leads (slice0 mockLeads 2))"
    and 3: "calls (screen_resume bare_env failing_network mid_draws ''n1'' screening_request
               (example_store Sourced)) = []"
    and 4: "resp (screen_resume bare_env failing_network mid_draws ''n1'' screening_request
             (example_store Sourced))
       = resp (screen_resume bare_env generous_network mid_draws ''n2'' screening_request
                 (example_store Hired))"
    using e b by auto
  from w[where new_id = "''o1''" and new_id' = "''o2''"]
  have 5: "calls (generate_outreach bare_env failing_network ''o1'' draft_request
               (example_store Sourced)) = []"
    and 6: "resp (generate_outreach bare_env failing_network ''o1'' draft_request (example_store Sourced))
       = resp (generate_outreach bare_env generous_network ''o2'' draft_request
                 (example_store Sourced))"
    using e by auto
  from w[where new_id = "''n1''"] e r[of mid_draws] r[of low_draws]
  have 7: "one_liner (mockScreen mid_draws) = one_liner (mockScreen low_draws)
           \<and> top_reasons (mockScreen mid_draws) = top_reasons (mockScreen low_draws)"
    by blast
  from 1 2 3 4 5 6 7 show ?thesis by (simp add: slice0_def)
qed

section \<open>Score ranges\<close>




end
